theory Spec2Isabelle
  imports Complex_Main "HOL-Library.Log_Nat"
begin

section \<open>Values, errors and responses\<close>

text \<open>
  Instants are milliseconds on the local time line. A JavaScript number is modelled by
  the rational it denotes (NaN and the infinities are outside the model); the handler's
  own additions round to the nearest double, see \<open>add\<close> below.
  The product and order schemas are not among the sources; a product carries the fields
  \<open>handleNewProduct\<close> passes to \<open>Product.create\<close>, an order the \<open>total\<close> the statistics
  read, and both the \<open>createdAt\<close> stamp the statistics filter on. The user document is
  the one of models/userModal.ts.
\<close>

record product_doc =
  p_id :: string
  p_name :: string
  p_image :: "string option"
  p_category :: string
  p_price :: rat
  p_stock :: rat
  p_createdAt :: int
  p_updatedAt :: int

datatype gender = male | female | other

datatype role = admin | user

record user_doc =
  u_id :: string
  u_name :: string
  u_email :: string
  u_image :: string
  u_role :: role
  u_dob :: int
  u_gender :: gender
  u_createdAt :: int
  u_updatedAt :: int

record order_total =
  o_id :: string
  o_total :: "rat option"

record order_doc = order_total +
  o_createdAt :: int

record percentages =
  pc_revenue :: rat
  pc_product :: rat
  pc_user :: rat
  pc_order :: rat

record counts =
  ct_revenue :: rat
  ct_product :: nat
  ct_user :: nat
  ct_order :: nat

record stats =
  percentage :: percentages
  count :: counts

text \<open>
  The values the handlers serialise, cache and send: \<open>null\<close>, strings, numbers, arrays,
  the documents, the statistics object and the literal \<open>{}\<close>. A value stands for its JSON
  text as well: what \<open>JSON.parse\<close> gives back from the text of a value is the value.
\<close>

datatype jsvalue =
    Null
  | Str string
  | Num rat
  | Arr "jsvalue list"
  | ProductDoc product_doc
  | UserDoc user_doc
  | Snapshot stats
  | EmptyObj

text \<open>
  What the cache holds under a key is a string. \<open>Stringified v\<close> is the text
  \<open>JSON.stringify\<close> produces for \<open>v\<close>; \<open>Malformed s\<close> is any string that is not a JSON text.
\<close>

datatype serialized = Stringified jsvalue | Malformed string

datatype error =
    ErrorHandler string nat
  | DataSourceFailure
  | ValidationError
  | SyntaxError
  | TypeError

definition JSON_stringify :: "jsvalue \<Rightarrow> serialized" where
  "JSON_stringify v = Stringified v"

fun JSON_parse :: "serialized option \<Rightarrow> error + jsvalue" where
  "JSON_parse (Some (Stringified v)) = Inr v"
| "JSON_parse (Some (Malformed s)) = Inl SyntaxError"
| "JSON_parse None = Inl SyntaxError"

text \<open>
  \<open>v.length > 0\<close>: reading a property of \<open>null\<close> throws; a value without a \<open>length\<close>
  gives \<open>undefined\<close>, which is not greater than 0.
\<close>

fun lengthPositive :: "jsvalue \<Rightarrow> error + bool" where
  "lengthPositive Null = Inl TypeError"
| "lengthPositive (Str s) = Inr (s \<noteq> [])"
| "lengthPositive (Arr xs) = Inr (xs \<noteq> [])"
| "lengthPositive _ = Inr False"

text \<open>The truth value of \<open>v\<close> in a condition.\<close>

fun truthy :: "jsvalue \<Rightarrow> bool" where
  "truthy Null = False"
| "truthy (Str s) = (s \<noteq> [])"
| "truthy (Num n) = (n \<noteq> 0)"
| "truthy _ = True"

text \<open>
  A handler either sends a response (\<open>res.status(n).json(body)\<close>) or hands an error to
  the next middleware (\<open>next(err)\<close>).
\<close>

record body =
  success :: bool
  message :: string
  payload :: "jsvalue option"

datatype outcome = Responded nat body | Next error

section \<open>The cache\<close>

text \<open>
  Modelled from the spec: \<open>utils/nodeCache.ts\<close>, which creates the process-wide
  \<open>nodeCache\<close> instance, is not among the sources. The operations follow the CacheStore
  contract: a key-to-payload mapping with presence check, get, set and deletion, and no
  expiry.
\<close>

type_synonym cache = "string \<rightharpoonup> serialized"

definition nodeCache_has :: "cache \<Rightarrow> string \<Rightarrow> bool" where
  "nodeCache_has c k = (c k \<noteq> None)"

definition nodeCache_get :: "cache \<Rightarrow> string \<Rightarrow> serialized option" where
  "nodeCache_get c k = c k"

definition nodeCache_set :: "string \<Rightarrow> serialized \<Rightarrow> cache \<Rightarrow> cache" where
  "nodeCache_set k v c = c(k \<mapsto> v)"

definition nodeCache_del :: "string \<Rightarrow> cache \<Rightarrow> cache" where
  "nodeCache_del k c = c(k := None)"

definition deleteMany :: "string list \<Rightarrow> cache \<Rightarrow> cache" where
  "deleteMany ks c = fold nodeCache_del ks c"

section \<open>The document store\<close>

text \<open>
  The state a handler runs in: the cache, the three collections, the number of
  operations issued to the document store so far, the store's answer to each of them
  (\<open>rejects w n\<close>: the store rejects the operation issued as number \<open>n\<close>, whatever the
  reason: unavailable, validation, a duplicate key), and the image files unlinked.
\<close>

record world =
  nodeCache :: cache
  products :: "product_doc list"
  users :: "user_doc list"
  orders :: "order_doc list"
  issued :: nat
  rejects :: "nat \<Rightarrow> bool"
  unlinked :: "string list"

text \<open>A read: the promise is rejected (\<open>None\<close>) or resolves to the result.\<close>

definition query :: "(world \<Rightarrow> 'a) \<Rightarrow> world \<Rightarrow> 'a option \<times> world" where
  "query q w =
     ((if rejects w (issued w) then None else Some (q w)), w\<lparr>issued := issued w + 1\<rparr>)"

text \<open>\<open>await p\<close>: a rejected promise throws.\<close>

fun await :: "'a option \<Rightarrow> error + 'a" where
  "await None = Inl DataSourceFailure"
| "await (Some x) = Inr x"

text \<open>\<open>Promise.all\<close>, pairwise: rejected as soon as one of the promises is.\<close>

fun Promise_all :: "'a option \<Rightarrow> 'b option \<Rightarrow> ('a \<times> 'b) option" where
  "Promise_all (Some a) (Some b) = Some (a, b)"
| "Promise_all _ _ = None"

section \<open>Dates\<close>

text \<open>
  A \<open>Date\<close> is given by its local-time fields, as \<open>getFullYear\<close> and \<open>getMonth\<close> read
  them. \<open>MakeDay\<close> and \<open>DayFromYear\<close> are ECMAScript's; \<open>Date3 y m d\<close> is the time value of
  \<open>new Date(y, m, d)\<close>, local midnight of that day, with months and days out of range
  carried over.
\<close>

record date =
  fullYear :: int
  monthIndex :: int
  dayOfMonth :: int
  msOfDay :: int

definition msPerDay :: int where
  "msPerDay = 86400000"

definition DayFromYear :: "int \<Rightarrow> int" where
  "DayFromYear y =
     365 * (y - 1970) + (y - 1969) div 4 - (y - 1901) div 100 + (y - 1601) div 400"

definition InLeapYear :: "int \<Rightarrow> bool" where
  "InLeapYear y = ((y mod 4 = 0 \<and> y mod 100 \<noteq> 0) \<or> y mod 400 = 0)"

definition daysBeforeMonth :: "int \<Rightarrow> bool \<Rightarrow> int" where
  "daysBeforeMonth mn leap =
     [0, 31, 59, 90, 120, 151, 181, 212, 243, 273, 304, 334] ! nat mn
       + (if leap \<and> 2 \<le> mn then 1 else 0)"

definition MakeDay :: "int \<Rightarrow> int \<Rightarrow> int \<Rightarrow> int" where
  "MakeDay y m d =
     (let ym = y + m div 12; mn = m mod 12
      in DayFromYear ym + daysBeforeMonth mn (InLeapYear ym) + d - 1)"

definition Date3 :: "int \<Rightarrow> int \<Rightarrow> int \<Rightarrow> int" where
  "Date3 y m d = MakeDay (if 0 \<le> y \<and> y \<le> 99 then 1900 + y else y) m d * msPerDay"

definition getTime :: "date \<Rightarrow> int" where
  "getTime t = MakeDay (fullYear t) (monthIndex t) (dayOfMonth t) * msPerDay + msOfDay t"

record window =
  w_start :: int
  w_end :: int

definition thisMonth :: "date \<Rightarrow> window" where
  "thisMonth today =
     \<lparr>w_start = Date3 (fullYear today) (monthIndex today) 1, w_end = getTime today\<rparr>"

definition lastMonth :: "date \<Rightarrow> window" where
  "lastMonth today =
     \<lparr>w_start = Date3 (fullYear today) (monthIndex today - 1) 1,
      w_end = Date3 (fullYear today) (monthIndex today) 0\<rparr>"

section \<open>Percentages\<close>

text \<open>
  Modelled from the spec: \<open>utils/calculatePercentage.ts\<close> is not among the sources. The
  spec's PercentageCalculator returns \<open>current * 100\<close> on a zero baseline and otherwise
  the relative change times 100, rounded to two decimal places (the precision the spec
  recommends), a tie going up.
\<close>

definition toFixed2 :: "rat \<Rightarrow> rat" where
  "toFixed2 x = of_int (round (x * 100)) / 100"

definition calculatePercentage :: "rat \<Rightarrow> rat \<Rightarrow> rat" where
  "calculatePercentage current previous =
     (if previous = 0 then current * 100
      else toFixed2 (((current - previous) / previous) * 100))"

section \<open>The dashboard statistics\<close>

definition Product_find_gt_lte :: "int \<Rightarrow> int \<Rightarrow> world \<Rightarrow> product_doc list" where
  "Product_find_gt_lte s e w =
     sort_key (\<lambda>p. - p_createdAt p)
       (filter (\<lambda>p. s < p_createdAt p \<and> p_createdAt p \<le> e) (products w))"

definition UserModel_find_gte_lte :: "int \<Rightarrow> int \<Rightarrow> world \<Rightarrow> user_doc list" where
  "UserModel_find_gte_lte s e w =
     filter (\<lambda>u. s \<le> u_createdAt u \<and> u_createdAt u \<le> e) (users w)"

definition Order_find_gte_lte :: "int \<Rightarrow> int \<Rightarrow> world \<Rightarrow> order_doc list" where
  "Order_find_gte_lte s e w =
     filter (\<lambda>x. s \<le> o_createdAt x \<and> o_createdAt x \<le> e) (orders w)"

definition Product_countDocuments :: "world \<Rightarrow> nat" where
  "Product_countDocuments w = length (products w)"

definition UserModel_countDocuments :: "world \<Rightarrow> nat" where
  "UserModel_countDocuments w = length (users w)"

definition Order_find_select_total :: "world \<Rightarrow> order_total list" where
  "Order_find_select_total w = map order_total.truncate (orders w)"

text \<open>
  JavaScript's \<open>+\<close> on numbers is the addition of IEEE 754 doubles: the exact sum, rounded
  to the nearest double, a tie going to the even significand. \<open>floorLog2 a\<close> is the
  exponent \<open>e\<close> with \<open>2^e \<le> a < 2^(e+1)\<close> for a positive \<open>a\<close>; a double has 53 significant
  bits and no unit in the last place below \<open>2^-1074\<close>. A sum beyond the largest double
  (\<open>Infinity\<close> in JavaScript) is outside the model.
\<close>

definition pow2 :: "int \<Rightarrow> rat" where
  "pow2 e = (if 0 \<le> e then 2 ^ nat e else 1 / 2 ^ nat (- e))"

definition floorLog2 :: "rat \<Rightarrow> int" where
  "floorLog2 a =
     (if 1 \<le> a then bitlen \<lfloor>a\<rfloor> - 1 else - bitlen (\<lceil>1 / a\<rceil> - 1))"

definition roundHalfEven :: "rat \<Rightarrow> int" where
  "roundHalfEven m =
     (let f = \<lfloor>m\<rfloor>; r = m - of_int f
      in if r < 1 / 2 then f else if 1 / 2 < r then f + 1 else if even f then f else f + 1)"

definition toDouble :: "rat \<Rightarrow> rat" where
  "toDouble x =
     (if x = 0 then 0
      else
        (let a = \<bar>x\<bar>; e = floorLog2 a; q = max (e - 52) (- 1074)
         in sgn x * of_int (roundHalfEven (a / pow2 q)) * pow2 q))"

definition add :: "rat \<Rightarrow> rat \<Rightarrow> rat" where
  "add x y = toDouble (x + y)"

text \<open>\<open>order.total || 0\<close>: a missing total counts as 0 (and so does a total of 0).\<close>

definition totalOr0 :: "'a order_total_scheme \<Rightarrow> rat" where
  "totalOr0 x = (case o_total x of None \<Rightarrow> 0 | Some t \<Rightarrow> t)"

text \<open>
  \<open>orders.reduce((total, order) => total + (order.total || 0), 0)\<close>: the totals are added
  from left to right, each addition rounding.
\<close>

definition revenueOf :: "'a order_total_scheme list \<Rightarrow> rat" where
  "revenueOf xs = foldl (\<lambda>total x. add total (totalOr0 x)) 0 xs"

text \<open>Lines 96 to 143 of the handler: from the nine results to the snapshot.\<close>

definition assemble ::
  "product_doc list \<Rightarrow> product_doc list \<Rightarrow> user_doc list \<Rightarrow> user_doc list \<Rightarrow>
   order_doc list \<Rightarrow> order_doc list \<Rightarrow> nat \<Rightarrow> nat \<Rightarrow> order_total list \<Rightarrow> stats" where
  "assemble thisMonthProducts lastMonthProducts thisMonthUsers lastMonthUsers
     thisMonthOrders lastMonthOrders totalProducts totalUsers allOrder =
     (let thisMonthRevenue = revenueOf thisMonthOrders;
          lastMonthRevenue = revenueOf lastMonthOrders;
          pc = \<lparr>pc_revenue = calculatePercentage thisMonthRevenue lastMonthRevenue,
                pc_product = calculatePercentage (of_nat (length thisMonthProducts))
                               (of_nat (length lastMonthProducts)),
                pc_user = calculatePercentage (of_nat (length thisMonthUsers))
                            (of_nat (length lastMonthUsers)),
                pc_order = calculatePercentage (of_nat (length thisMonthOrders))
                             (of_nat (length lastMonthOrders))\<rparr>;
          revenue = revenueOf allOrder;
          ct = \<lparr>ct_revenue = revenue, ct_product = totalProducts, ct_user = totalUsers,
                ct_order = length allOrder\<rparr>
      in \<lparr>percentage = pc, count = ct\<rparr>)"

text \<open>
  Lines 22 to 94: the two windows and the nine reads, issued in the order of the array
  handed to \<open>Promise.all\<close>; the result is the nine values, or none when a read was
  rejected.
\<close>

definition fetchAll :: "date \<Rightarrow> world \<Rightarrow> stats option \<times> world" where
  "fetchAll today w =
     (let tm = thisMonth today; lm = lastMonth today;
          (thisMonthProducts, w1) = query (Product_find_gt_lte (w_start tm) (w_end tm)) w;
          (lastMonthProducts, w2) = query (Product_find_gt_lte (w_start lm) (w_end lm)) w1;
          (thisMonthUsers, w3) = query (UserModel_find_gte_lte (w_start tm) (w_end tm)) w2;
          (lastMonthUsers, w4) = query (UserModel_find_gte_lte (w_start lm) (w_end lm)) w3;
          (thisMonthOrders, w5) = query (Order_find_gte_lte (w_start tm) (w_end tm)) w4;
          (lastMonthOrders, w6) = query (Order_find_gte_lte (w_start lm) (w_end lm)) w5;
          (totalProducts, w7) = query Product_countDocuments w6;
          (totalUsers, w8) = query UserModel_countDocuments w7;
          (allOrder, w9) = query Order_find_select_total w8
      in (case Promise_all thisMonthProducts (Promise_all lastMonthProducts
               (Promise_all thisMonthUsers (Promise_all lastMonthUsers
               (Promise_all thisMonthOrders (Promise_all lastMonthOrders
               (Promise_all totalProducts (Promise_all totalUsers allOrder))))))) of
            None \<Rightarrow> None
          | Some (a, b, c, d, e, f, g, h, i) \<Rightarrow> Some (assemble a b c d e f g h i),
          w9))"

text \<open>
  \<open>TryCatch\<close> (middlewares/error.ts): what the controller throws goes to \<open>next\<close>.
\<close>

definition TryCatch :: "(world \<Rightarrow> (error + outcome) \<times> world) \<Rightarrow> world \<Rightarrow> outcome \<times> world" where
  "TryCatch controller w =
     (case controller w of
        (Inl err, w') \<Rightarrow> (Next err, w')
      | (Inr out, w') \<Rightarrow> (out, w'))"

definition handleGetDashboardStats :: "date \<Rightarrow> world \<Rightarrow> outcome \<times> world" where
  "handleGetDashboardStats today =
     TryCatch (\<lambda>w.
       let key = ''admin-stats'' in
       if nodeCache_has (nodeCache w) key then
         (case JSON_parse (nodeCache_get (nodeCache w) key) of
            Inl err \<Rightarrow> (Inl err, w)
          | Inr stats \<Rightarrow>
              (Inr (Responded 200 \<lparr>success = True,
                      message = ''Successfully get dashboard stats'',
                      payload = Some stats\<rparr>), w))
       else
         (case fetchAll today w of
            (r, w') \<Rightarrow>
              (case await r of
                 Inl err \<Rightarrow> (Inl err, w')
               | Inr stats \<Rightarrow>
                   (Inr (Responded 200 \<lparr>success = True,
                           message = ''Successfully get dashboard stats'',
                           payload = Some (Snapshot stats)\<rparr>), w'))))"

section \<open>The cached product reads\<close>

definition Product_find_latest :: "world \<Rightarrow> product_doc list" where
  "Product_find_latest w = take 5 (sort_key (\<lambda>p. - p_createdAt p) (products w))"

definition Product_distinct_category :: "world \<Rightarrow> string list" where
  "Product_distinct_category w = remdups (map p_category (products w))"

definition Product_find_all :: "world \<Rightarrow> product_doc list" where
  "Product_find_all w = sort_key (\<lambda>p. - p_createdAt p) (products w)"

definition Product_findById :: "string \<Rightarrow> world \<Rightarrow> product_doc option" where
  "Product_findById pid w = find (\<lambda>p. p_id p = pid) (products w)"

text \<open>
  The response the three listing handlers end with:
  \<open>res.status(v.length > 0 ? 200 : 404).json({success, message, payload: v.length > 0 ? v : []})\<close>.
\<close>

definition listResponse :: "string \<Rightarrow> string \<Rightarrow> jsvalue \<Rightarrow> error + outcome" where
  "listResponse found nothing v =
     (case lengthPositive v of
        Inl err \<Rightarrow> Inl err
      | Inr pos \<Rightarrow>
          Inr (Responded (if pos then 200 else 404)
                 \<lparr>success = pos, message = (if pos then found else nothing),
                  payload = Some (if pos then v else Arr [])\<rparr>))"

text \<open>
  The read-through pattern the three listing handlers share: on a hit the cached text is
  parsed; on a miss the query is awaited and its result stored.
\<close>

definition readThroughList ::
  "string \<Rightarrow> (world \<Rightarrow> jsvalue) \<Rightarrow> string \<Rightarrow> string \<Rightarrow> world \<Rightarrow> (error + outcome) \<times> world" where
  "readThroughList key q found nothing w =
     (if nodeCache_has (nodeCache w) key then
        (case JSON_parse (nodeCache_get (nodeCache w) key) of
           Inl err \<Rightarrow> (Inl err, w)
         | Inr v \<Rightarrow> (listResponse found nothing v, w))
      else
        (case query q w of
           (r, w') \<Rightarrow>
             (case await r of
                Inl err \<Rightarrow> (Inl err, w')
              | Inr v \<Rightarrow>
                  (listResponse found nothing v,
                   w'\<lparr>nodeCache := nodeCache_set key (JSON_stringify v) (nodeCache w')\<rparr>))))"

definition handleGetLatestProducts :: "world \<Rightarrow> outcome \<times> world" where
  "handleGetLatestProducts =
     TryCatch (readThroughList ''latestProducts''
       (\<lambda>w. Arr (map ProductDoc (Product_find_latest w)))
       ''Latest products'' ''No products found'')"

definition handleGetAllCategories :: "world \<Rightarrow> outcome \<times> world" where
  "handleGetAllCategories =
     TryCatch (readThroughList ''categories''
       (\<lambda>w. Arr (map Str (Product_distinct_category w)))
       ''All available categories'' ''No categories found'')"

definition handleGetAllAdminProducts :: "world \<Rightarrow> outcome \<times> world" where
  "handleGetAllAdminProducts =
     TryCatch (readThroughList ''admin-products''
       (\<lambda>w. Arr (map ProductDoc (Product_find_all w)))
       ''Fetch all product'' ''No products found'')"

definition productResponse :: "jsvalue \<Rightarrow> outcome" where
  "productResponse product =
     Responded (if truthy product then 200 else 404)
       \<lparr>success = truthy product,
        message = (if truthy product then ''Product found'' else ''Product not found''),
        payload = Some (if truthy product then product else EmptyObj)\<rparr>"

definition handleGetSingleProduct :: "string \<Rightarrow> world \<Rightarrow> outcome \<times> world" where
  "handleGetSingleProduct pid =
     TryCatch (\<lambda>w.
       let key = ''product-'' @ pid in
       if nodeCache_has (nodeCache w) key then
         (case JSON_parse (nodeCache_get (nodeCache w) key) of
            Inl err \<Rightarrow> (Inl err, w)
          | Inr product \<Rightarrow> (Inr (productResponse product), w))
       else
         (case query (\<lambda>w. case Product_findById pid w of
                             None \<Rightarrow> Null | Some p \<Rightarrow> ProductDoc p) w of
            (r, w') \<Rightarrow>
              (case await r of
                 Inl err \<Rightarrow> (Inl err, w')
               | Inr product \<Rightarrow>
                   (Inr (productResponse product),
                    w'\<lparr>nodeCache :=
                         nodeCache_set key (JSON_stringify product) (nodeCache w')\<rparr>))))"

section \<open>Invalidation\<close>

text \<open>
  Modelled from the spec: \<open>invalidateCache\<close> of \<open>utils/nodeCache.ts\<close> is not among the
  sources. It follows the InvalidationCoordinator's table: a product write purges the
  three product views and the statistics, and the detail entry of the product when its
  id is given; an order or a user write purges the statistics. The controllers' calls
  \<open>invalidateCache({product: true})\<close> and \<open>invalidateCache({product: true, productId: x})\<close>
  are the requests of kind \<open>Product\<close> without and with the id \<open>x\<close>.
\<close>

datatype entityKind = Product | User | Order

record InvalidationRequest =
  entityKind :: entityKind
  entityId :: "string option"

definition keysToPurge :: "InvalidationRequest \<Rightarrow> string list" where
  "keysToPurge r =
     (case entityKind r of
        Product \<Rightarrow>
          [''latestProducts'', ''categories'', ''admin-products'', ''admin-stats'']
            @ (case entityId r of None \<Rightarrow> [] | Some x \<Rightarrow> [''product-'' @ x])
      | Order \<Rightarrow> [''admin-stats'']
      | User \<Rightarrow> [''admin-stats''])"

definition invalidateCache :: "InvalidationRequest \<Rightarrow> cache \<Rightarrow> cache" where
  "invalidateCache r c = deleteMany (keysToPurge r) c"

section \<open>The product writes\<close>

text \<open>
  A write to the store: rejected by the store, or refused by the operation itself
  (\<open>None\<close>), or carried out.
\<close>

definition command :: "(world \<Rightarrow> ('a \<times> world) option) \<Rightarrow> world \<Rightarrow> 'a option \<times> world" where
  "command f w =
     (if rejects w (issued w) then (None, w\<lparr>issued := issued w + 1\<rparr>)
      else (case f w of
              None \<Rightarrow> (None, w\<lparr>issued := issued w + 1\<rparr>)
            | Some (a, w') \<Rightarrow> (Some a, w'\<lparr>issued := issued w + 1\<rparr>)))"

record NewProductRequest =
  np_name :: string
  np_category :: string
  np_price :: rat
  np_stock :: rat
  np_file :: "string option"

text \<open>\<open>xs.join(sep)\<close>\<close>

fun join :: "string \<Rightarrow> string list \<Rightarrow> string" where
  "join sep [] = []"
| "join sep [x] = x"
| "join sep (x # y # ys) = x @ sep @ join sep (y # ys)"

text \<open>
  \<open>Product.create\<close>: the new document gets the identifier \<open>oid\<close> the driver generates
  and the stamps of the instant \<open>now\<close>.
\<close>

definition Product_create ::
  "NewProductRequest \<Rightarrow> string \<Rightarrow> int \<Rightarrow> world \<Rightarrow> (product_doc \<times> world) option" where
  "Product_create req oid now w =
     (let doc = \<lparr>p_id = oid, p_name = np_name req, p_image = np_file req,
                 p_category = np_category req, p_price = np_price req,
                 p_stock = np_stock req, p_createdAt = now, p_updatedAt = now\<rparr>
      in Some (doc, w\<lparr>products := products w @ [doc]\<rparr>))"

text \<open>
  \<open>validateAllowedFields\<close> (utils/allowedFields.ts) is not among the sources and the
  spec leaves request validation out: it is a parameter of the handler, \<open>None\<close> being a
  result that counts as false.
\<close>

definition handleNewProduct ::
  "(NewProductRequest \<Rightarrow> string list \<Rightarrow> string list option) \<Rightarrow> string \<Rightarrow> int \<Rightarrow>
   NewProductRequest \<Rightarrow> world \<Rightarrow> outcome \<times> world" where
  "handleNewProduct validateAllowedFields oid now req =
     TryCatch (\<lambda>w.
       let allowedFields = [''name'', ''category'', ''price'', ''stock'', ''image''] in
       case validateAllowedFields req allowedFields of
         Some invalidFields \<Rightarrow>
           (Inr (Next (ErrorHandler (''Invalid fields: '' @ join '', '' invalidFields) 400)), w)
       | None \<Rightarrow>
           (case command (Product_create req oid now) w of
              (r, w1) \<Rightarrow>
                (case await r of
                   Inl err \<Rightarrow> (Inl err, w1)
                 | Inr newProduct \<Rightarrow>
                     (Inr (Responded 201 \<lparr>success = True,
                             message = ''Product created successfully'',
                             payload = Some (ProductDoc newProduct)\<rparr>),
                      w1\<lparr>nodeCache :=
                           invalidateCache \<lparr>entityKind = Product, entityId = None\<rparr>
                             (nodeCache w1)\<rparr>))))"

fun prepareUpdates :: "(string \<times> jsvalue) list \<Rightarrow> string list \<Rightarrow> error + (string \<times> jsvalue) list" where
  "prepareUpdates [] allowedFields = Inr []"
| "prepareUpdates ((key, v) # rest) allowedFields =
     (if key \<in> set allowedFields then
        (case prepareUpdates rest allowedFields of
           Inl err \<Rightarrow> Inl err
         | Inr updates \<Rightarrow> Inr ((key, v) # updates))
      else Inl (ErrorHandler (''Field '' @ key @ '' is not allowed for update'') 400))"

text \<open>\<open>updates[key] = v\<close>\<close>

fun assign :: "string \<Rightarrow> jsvalue \<Rightarrow> (string \<times> jsvalue) list \<Rightarrow> (string \<times> jsvalue) list" where
  "assign key v [] = [(key, v)]"
| "assign key v ((k, x) # rest) =
     (if k = key then (k, v) # rest else (k, x) # assign key v rest)"

text \<open>
  The store applying one field of an update. A value of another type than the field's is
  a cast error (the conversions between strings and numbers are outside the model); a
  field the document does not have is skipped.
\<close>

definition setField :: "string \<times> jsvalue \<Rightarrow> product_doc \<Rightarrow> product_doc option" where
  "setField kv p =
     (case kv of
        (k, Str s) \<Rightarrow>
          (if k = ''name'' then Some (p\<lparr>p_name := s\<rparr>)
           else if k = ''category'' then Some (p\<lparr>p_category := s\<rparr>)
           else if k = ''image'' then Some (p\<lparr>p_image := Some s\<rparr>)
           else if k = ''price'' \<or> k = ''stock'' then None
           else Some p)
      | (k, Num n) \<Rightarrow>
          (if k = ''price'' then Some (p\<lparr>p_price := n\<rparr>)
           else if k = ''stock'' then Some (p\<lparr>p_stock := n\<rparr>)
           else if k = ''name'' \<or> k = ''category'' \<or> k = ''image'' then None
           else Some p)
      | (k, _) \<Rightarrow>
          (if k \<in> set [''name'', ''category'', ''image'', ''price'', ''stock''] then None
           else Some p))"

fun applyUpdates :: "(string \<times> jsvalue) list \<Rightarrow> product_doc \<Rightarrow> product_doc option" where
  "applyUpdates [] p = Some p"
| "applyUpdates (kv # rest) p =
     (case setField kv p of None \<Rightarrow> None | Some p' \<Rightarrow> applyUpdates rest p')"

fun replaceFirst :: "string \<Rightarrow> product_doc \<Rightarrow> product_doc list \<Rightarrow> product_doc list" where
  "replaceFirst pid q [] = []"
| "replaceFirst pid q (p # ps) = (if p_id p = pid then q # ps else p # replaceFirst pid q ps)"

text \<open>
  \<open>Product.findByIdAndUpdate(id, updates, {new: true, ...})\<close>: \<open>null\<close> when no product has
  the id, the updated document otherwise.
\<close>

definition Product_findByIdAndUpdate ::
  "string \<Rightarrow> (string \<times> jsvalue) list \<Rightarrow> int \<Rightarrow> world \<Rightarrow> (product_doc option \<times> world) option" where
  "Product_findByIdAndUpdate pid updates now w =
     (case Product_findById pid w of
        None \<Rightarrow> Some (None, w)
      | Some p \<Rightarrow>
          (case applyUpdates updates p of
             None \<Rightarrow> None
           | Some p' \<Rightarrow>
               (let q = p'\<lparr>p_updatedAt := now\<rparr>
                in Some (Some q, w\<lparr>products := replaceFirst pid q (products w)\<rparr>))))"

fun removeFirst :: "string \<Rightarrow> product_doc list \<Rightarrow> product_doc list" where
  "removeFirst pid [] = []"
| "removeFirst pid (p # ps) = (if p_id p = pid then ps else p # removeFirst pid ps)"

definition Product_findByIdAndDelete ::
  "string \<Rightarrow> world \<Rightarrow> (product_doc option \<times> world) option" where
  "Product_findByIdAndDelete pid w =
     (case Product_findById pid w of
        None \<Rightarrow> Some (None, w)
      | Some p \<Rightarrow> Some (Some p, w\<lparr>products := removeFirst pid (products w)\<rparr>))"

text \<open>
  \<open>deleteImage\<close> (validators/index.ts) is not among the sources; the model records the
  path it is called with.
\<close>

definition deleteImage :: "string \<Rightarrow> world \<Rightarrow> world" where
  "deleteImage path w = w\<lparr>unlinked := unlinked w @ [path]\<rparr>"

text \<open>\<open>if (productExists.image) deleteImage(productExists.image)\<close>\<close>

definition deleteImageOf :: "product_doc \<Rightarrow> world \<Rightarrow> world" where
  "deleteImageOf p w =
     (case p_image p of
        None \<Rightarrow> w
      | Some path \<Rightarrow> (if path \<noteq> [] then deleteImage path w else w))"

record UpdateProductRequest =
  up_id :: string
  up_file :: "string option"
  up_body :: "(string \<times> jsvalue) list"

definition handleUpdateSingleProduct :: "int \<Rightarrow> UpdateProductRequest \<Rightarrow> world \<Rightarrow> outcome \<times> world" where
  "handleUpdateSingleProduct now req =
     TryCatch (\<lambda>w.
       case query (Product_findById (up_id req)) w of
         (r, w1) \<Rightarrow>
           (case await r of
              Inl err \<Rightarrow> (Inl err, w1)
            | Inr None \<Rightarrow> (Inr (Next (ErrorHandler ''Product not found'' 404)), w1)
            | Inr (Some productExists) \<Rightarrow>
                (let allowFields = [''name'', ''category'', ''price'', ''stock'', ''image''] in
                 case prepareUpdates (up_body req) allowFields of
                   Inl err \<Rightarrow> (Inl err, w1)
                 | Inr updates0 \<Rightarrow>
                     (let (updates, w2) =
                        (case up_file req of
                           None \<Rightarrow> (updates0, w1)
                         | Some path \<Rightarrow>
                             (assign ''image'' (Str path) updates0,
                              deleteImageOf productExists w1))
                      in case command (Product_findByIdAndUpdate (up_id req) updates now) w2 of
                           (r2, w3) \<Rightarrow>
                             (case await r2 of
                                Inl err \<Rightarrow> (Inl err, w3)
                              | Inr None \<Rightarrow>
                                  (Inr (Next (ErrorHandler ''Error updating product'' 404)), w3)
                              | Inr (Some updatedProduct) \<Rightarrow>
                                  (Inr (Responded 200 \<lparr>success = True,
                                          message = ''Product updated successfully'',
                                          payload = Some (ProductDoc updatedProduct)\<rparr>),
                                   w3\<lparr>nodeCache :=
                                        invalidateCache
                                          \<lparr>entityKind = Product,
                                           entityId = Some (p_id updatedProduct)\<rparr>
                                          (nodeCache w3)\<rparr>))))))"

definition handleDeleteProduct :: "string \<Rightarrow> world \<Rightarrow> outcome \<times> world" where
  "handleDeleteProduct pid =
     TryCatch (\<lambda>w.
       case query (Product_findById pid) w of
         (r, w1) \<Rightarrow>
           (case await r of
              Inl err \<Rightarrow> (Inl err, w1)
            | Inr None \<Rightarrow> (Inr (Next (ErrorHandler ''Product not found'' 404)), w1)
            | Inr (Some productExists) \<Rightarrow>
                (case command (Product_findByIdAndDelete pid) (deleteImageOf productExists w1) of
                   (r2, w3) \<Rightarrow>
                     (case await r2 of
                        Inl err \<Rightarrow> (Inl err, w3)
                      | Inr None \<Rightarrow>
                          (Inr (Next (ErrorHandler ''Error deleting product'' 404)), w3)
                      | Inr (Some deletedProduct) \<Rightarrow>
                          (Inr (Responded 200 \<lparr>success = True,
                                  message = ''Product deleted successfully'',
                                  payload = Some (ProductDoc deletedProduct)\<rparr>),
                           w3\<lparr>nodeCache :=
                                invalidateCache
                                  \<lparr>entityKind = Product,
                                   entityId = Some (p_id deletedProduct)\<rparr>
                                  (nodeCache w3)\<rparr>)))))"

section \<open>The user write\<close>

record NewUserRequestBody =
  b_id :: string
  b_name :: string
  b_email :: string
  b_image :: string
  b_dob :: int
  b_gender :: gender

definition isSpace :: "char \<Rightarrow> bool" where
  "isSpace c = (of_char c \<in> set [9, 10, 11, 12, 13, 32 :: nat])"

definition trim :: "string \<Rightarrow> string" where
  "trim s = rev (dropWhile isSpace (rev (dropWhile isSpace s)))"

definition toLowerCase :: "string \<Rightarrow> string" where
  "toLowerCase s =
     map (\<lambda>c. if 65 \<le> (of_char c :: nat) \<and> (of_char c :: nat) \<le> 90
              then char_of (of_char c + 32 :: nat) else c) s"

definition alnum :: "char \<Rightarrow> bool" where
  "alnum c =
     (let n = (of_char c :: nat)
      in (97 \<le> n \<and> n \<le> 122) \<or> (65 \<le> n \<and> n \<le> 90) \<or> (48 \<le> n \<and> n \<le> 57))"

text \<open>The schema's validator of \<open>email\<close>: \<open>/^[a-zA-Z0-9+_.-]+@[a-zA-Z0-9.-]+$/\<close>.\<close>

definition emailOk :: "string \<Rightarrow> bool" where
  "emailOk s =
     (let a = takeWhile (\<lambda>c. c \<noteq> CHR ''@'') s; b = drop (length a) s
      in a \<noteq> [] \<and> list_all (\<lambda>c. alnum c \<or> c \<in> set ''+_.-'') a \<and>
         (case b of
            [] \<Rightarrow> False
          | sep # d \<Rightarrow> d \<noteq> [] \<and> list_all (\<lambda>c. alnum c \<or> c \<in> set ''.-'') d))"

text \<open>
  The document \<open>UserModal.create\<close> builds (the schema trims the name, trims and
  lower-cases the email, and defaults the role) and the schema's validation of it.
\<close>

definition newUser :: "NewUserRequestBody \<Rightarrow> int \<Rightarrow> user_doc" where
  "newUser b now =
     \<lparr>u_id = b_id b, u_name = trim (b_name b), u_email = toLowerCase (trim (b_email b)),
      u_image = b_image b, u_role = user, u_dob = b_dob b, u_gender = b_gender b,
      u_createdAt = now, u_updatedAt = now\<rparr>"

definition userValid :: "user_doc \<Rightarrow> bool" where
  "userValid u =
     (u_id u \<noteq> [] \<and> 3 \<le> length (u_name u) \<and> length (u_name u) \<le> 50 \<and>
      u_email u \<noteq> [] \<and> emailOk (u_email u) \<and> u_image u \<noteq> [])"

definition UserModal_findById :: "string \<Rightarrow> world \<Rightarrow> user_doc option" where
  "UserModal_findById uid w = find (\<lambda>u. u_id u = uid) (users w)"

text \<open>The insert: the store refuses a duplicate \<open>_id\<close> or \<open>email\<close> (its unique index).\<close>

definition UserModal_insert :: "user_doc \<Rightarrow> world \<Rightarrow> (user_doc \<times> world) option" where
  "UserModal_insert u w =
     (if u_email u \<in> set (map u_email (users w)) \<or> u_id u \<in> set (map u_id (users w))
      then None
      else Some (u, w\<lparr>users := users w @ [u]\<rparr>))"

definition handleNewUser :: "int \<Rightarrow> NewUserRequestBody \<Rightarrow> world \<Rightarrow> outcome \<times> world" where
  "handleNewUser now b =
     TryCatch (\<lambda>w.
       case query (UserModal_findById (b_id b)) w of
         (r, w1) \<Rightarrow>
           (case await r of
              Inl err \<Rightarrow> (Inl err, w1)
            | Inr (Some found) \<Rightarrow>
                (Inr (Responded 200 \<lparr>success = True,
                        message = ''Welcome back '' @ b_name b @ ''!'',
                        payload = Some (UserDoc found)\<rparr>), w1)
            | Inr None \<Rightarrow>
                (if \<not> userValid (newUser b now) then (Inl ValidationError, w1)
                 else
                   (case command (UserModal_insert (newUser b now)) w1 of
                      (r2, w2) \<Rightarrow>
                        (case await r2 of
                           Inl err \<Rightarrow> (Inl err, w2)
                         | Inr created \<Rightarrow>
                             (Inr (Responded 201 \<lparr>success = True,
                                     message = ''Welcome '' @ u_name created
                                       @ ''! Your account has been created successfully!'',
                                     payload = None\<rparr>), w2))))))"

section \<open>Concrete states\<close>

text \<open>
  A store that answers every operation, with nothing in it and nothing cached; noon of
  15 March 2024; and a small shop: a product and a user created at the first instant of
  February 2024, an order of early February, an order of noon on 29 February, and two
  orders of March, one of them without a total.
\<close>

definition emptyWorld :: world where
  "emptyWorld =
     \<lparr>nodeCache = Map.empty, products = [], users = [], orders = [], issued = 0,
      rejects = (\<lambda>n. False), unlinked = []\<rparr>"

definition midMarch :: date where
  "midMarch = \<lparr>fullYear = 2024, monthIndex = 2, dayOfMonth = 15, msOfDay = 43200000\<rparr>"

definition shopWorld :: world where
  "shopWorld = emptyWorld\<lparr>
     products := [\<lparr>p_id = ''p1'', p_name = ''Lamp'', p_image = None, p_category = ''home'',
                   p_price = 20, p_stock = 3, p_createdAt = 1706745600000,
                   p_updatedAt = 1706745600000\<rparr>],
     users := [\<lparr>u_id = ''u1'', u_name = ''Alice'', u_email = ''alice@example.org'',
                u_image = ''a.png'', u_role = user, u_dob = 0, u_gender = female,
                u_createdAt = 1706745600000, u_updatedAt = 1706745600000\<rparr>],
     orders := [\<lparr>o_id = ''o1'', o_total = Some 200, o_createdAt = 1707000000000\<rparr>,
                \<lparr>o_id = ''o2'', o_total = Some 40, o_createdAt = 1709208000000\<rparr>,
                \<lparr>o_id = ''o3'', o_total = Some 300, o_createdAt = 1709300000000\<rparr>,
                \<lparr>o_id = ''o4'', o_total = None, o_createdAt = 1709400000000\<rparr>]\<rparr>"

text \<open>The store of \<open>shopWorld\<close>, rejecting the operation issued as number 3.\<close>

definition flakyWorld :: world where
  "flakyWorld = shopWorld\<lparr>rejects := (\<lambda>n. n = 3)\<rparr>"

text \<open>
  The shop with a snapshot cached under \<open>admin-stats\<close>; a sign-up, a new product, a new
  price for the product \<open>p1\<close>; and a cache holding every key of the table.
\<close>

definition cachedStats :: serialized where
  "cachedStats = Stringified (Snapshot
     \<lparr>percentage = \<lparr>pc_revenue = 50, pc_product = 0, pc_user = - 100, pc_order = 100\<rparr>,
      count = \<lparr>ct_revenue = 540, ct_product = 1, ct_user = 1, ct_order = 4\<rparr>\<rparr>)"

definition staleWorld :: world where
  "staleWorld = shopWorld\<lparr>nodeCache := map_of [(''admin-stats'', cachedStats)]\<rparr>"

definition bob :: NewUserRequestBody where
  "bob = \<lparr>b_id = ''u2'', b_name = '' Bob Ray'', b_email = ''Bob@Example.org'',
          b_image = ''b.png'', b_dob = 0, b_gender = male\<rparr>"

definition lamp2 :: NewProductRequest where
  "lamp2 = \<lparr>np_name = ''Desk lamp'', np_category = ''home'', np_price = 35, np_stock = 7,
            np_file = Some ''uploads/lamp.png''\<rparr>"

definition reprice :: UpdateProductRequest where
  "reprice = \<lparr>up_id = ''p1'', up_file = None, up_body = [(''price'', Num 25)]\<rparr>"

definition warmCache :: cache where
  "warmCache = map_of
     [(''latestProducts'', Stringified (Arr [])),
      (''categories'', Stringified (Arr [Str ''home''])),
      (''admin-products'', Stringified (Arr [])),
      (''admin-stats'', cachedStats),
      (''product-p1'', Stringified Null),
      (''product-p2'', Stringified (Str ''kept''))]"

text \<open>
  The shop after a request for the product \<open>p9\<close>, which it does not have, and then
  after a product has been created under that very id.
\<close>

definition askedWorld :: world where
  "askedWorld = snd (handleGetSingleProduct ''p9'' shopWorld)"

definition restockedWorld :: world where
  "restockedWorld =
     snd (handleNewProduct (\<lambda>req allowed. None) ''p9'' 1710504000000 lamp2 askedWorld)"

text \<open>Two orders whose totals are the doubles written \<open>0.1\<close> and \<open>0.2\<close>.\<close>

definition centsOrders :: "order_doc list" where
  "centsOrders =
     [\<lparr>o_id = ''c1'', o_total = Some (toDouble (1 / 10)), o_createdAt = 1709300000000\<rparr>,
      \<lparr>o_id = ''c2'', o_total = Some (toDouble (2 / 10)), o_createdAt = 1709400000000\<rparr>]"

text \<open>The answer of the store to the read \<open>q\<close> issued as number \<open>n\<close>.\<close>

definition answerAt :: "world \<Rightarrow> nat \<Rightarrow> (world \<Rightarrow> 'a) \<Rightarrow> 'a option" where
  "answerAt w n q = (if rejects w n then None else Some (q w))"

section \<open>The addition of doubles\<close>

text \<open>
  The exponent \<open>floorLog2\<close> finds is the right one, and \<open>toDouble x\<close> is a multiple of the
  unit in the last place at most half a unit away from \<open>x\<close>.
\<close>

lemma roundHalfEven_close: "\<bar>of_int (roundHalfEven m) - m\<bar> \<le> 1 / 2"
proof -
  have "of_int \<lfloor>m\<rfloor> \<le> m" "m < of_int \<lfloor>m\<rfloor> + 1"
    by linarith+
  then show ?thesis
    by (simp add: roundHalfEven_def Let_def abs_le_iff)
qed

lemma floorLog2_ge1:
  assumes "1 \<le> a"
  shows "pow2 (floorLog2 a) \<le> a \<and> a < pow2 (floorLog2 a + 1)"
proof -
  have p: "0 < \<lfloor>a\<rfloor>" using assms by linarith
  from bitlen_bounds [OF p]
  have b: "2 ^ nat (bitlen \<lfloor>a\<rfloor> - 1) \<le> \<lfloor>a\<rfloor>" "\<lfloor>a\<rfloor> < 2 ^ nat (bitlen \<lfloor>a\<rfloor>)"
    by simp_all
  have g: "1 \<le> bitlen \<lfloor>a\<rfloor>"
    using p by (simp add: bitlen_alt_def)
  have "(of_int (2 ^ nat (bitlen \<lfloor>a\<rfloor> - 1)) :: rat) \<le> of_int \<lfloor>a\<rfloor>"
    using b(1) by (simp only: of_int_le_iff)
  also have "\<dots> \<le> a"
    by simp
  finally have l: "(2 :: rat) ^ nat (bitlen \<lfloor>a\<rfloor> - 1) \<le> a"
    by simp
  have "\<lfloor>a\<rfloor> + 1 \<le> 2 ^ nat (bitlen \<lfloor>a\<rfloor>)"
    using b(2) by simp
  then have "(of_int (\<lfloor>a\<rfloor> + 1) :: rat) \<le> of_int (2 ^ nat (bitlen \<lfloor>a\<rfloor>))"
    by (simp only: of_int_le_iff)
  moreover have "a < of_int (\<lfloor>a\<rfloor> + 1)"
    by linarith
  ultimately have u: "a < (2 :: rat) ^ nat (bitlen \<lfloor>a\<rfloor>)"
    by simp
  have "nat (bitlen \<lfloor>a\<rfloor> - 1 + 1) = nat (bitlen \<lfloor>a\<rfloor>)"
    by simp
  then show ?thesis
    using l u g assms by (simp add: floorLog2_def pow2_def)
qed


lemma floorLog2_lt1:
  assumes "0 < a" and "a < 1"
  shows "pow2 (floorLog2 a) \<le> a \<and> a < pow2 (floorLog2 a + 1)"
proof -
  define c where "c = \<lceil>1 / a\<rceil>"
  define k where "k = bitlen (c - 1)"
  have i: "1 < 1 / a"
    using assms by simp
  then have c2: "2 \<le> c"
    unfolding c_def by linarith
  then have p: "0 < c - 1"
    by simp
  from bitlen_bounds [OF p]
  have b: "2 ^ nat (k - 1) \<le> c - 1" "c - 1 < 2 ^ nat k"
    by (simp_all add: k_def)
  have g: "1 \<le> k"
    using p by (simp add: k_def bitlen_alt_def)
  have "1 / a \<le> of_int c"
    unfolding c_def by linarith
  also have "(of_int c :: rat) \<le> of_int (2 ^ nat k)"
    using b(2) by (simp only: of_int_le_iff)
  finally have "1 / a \<le> 2 ^ nat k"
    by simp
  then have l: "1 / 2 ^ nat k \<le> a"
    using assms(1) by (simp add: field_simps)
  have "(of_int (2 ^ nat (k - 1)) :: rat) \<le> of_int (c - 1)"
    using b(1) by (simp only: of_int_le_iff)
  also have "(of_int (c - 1) :: rat) < 1 / a"
    unfolding c_def by simp linarith
  finally have "2 ^ nat (k - 1) < 1 / a"
    by simp
  then have u: "a < 1 / 2 ^ nat (k - 1)"
    using assms(1) by (simp add: field_simps)
  have f: "floorLog2 a = - k"
    using assms by (simp add: floorLog2_def k_def c_def)
  show ?thesis
  proof (cases "k = 1")
    case True
    with l assms show ?thesis
      by (simp add: f pow2_def)
  next
    case False
    with g have "1 < k" by simp
    then have "nat (- (1 - k)) = nat (k - 1)" "\<not> 0 \<le> 1 - k" "\<not> 0 \<le> - k"
      by simp_all
    with l u show ?thesis
      by (simp add: f pow2_def)
  qed
qed

lemma floorLog2_bounds:
  "0 < a \<Longrightarrow> pow2 (floorLog2 a) \<le> a \<and> a < pow2 (floorLog2 a + 1)"
  using floorLog2_ge1 [of a] floorLog2_lt1 [of a] by (cases "1 \<le> a") simp_all

lemma pow2_pos: "0 < pow2 e"
  by (simp add: pow2_def)

lemma toDouble_close:
  "\<bar>toDouble x - x\<bar> \<le> pow2 (max (floorLog2 \<bar>x\<bar> - 52) (- 1074)) / 2"
proof (cases "x = 0")
  case True
  then show ?thesis
    using pow2_pos [of "max (floorLog2 \<bar>x\<bar> - 52) (- 1074)"] by (simp add: toDouble_def)
next
  case False
  define u where "u = pow2 (max (floorLog2 \<bar>x\<bar> - 52) (- 1074))"
  define n where "n = roundHalfEven (\<bar>x\<bar> / u)"
  have u: "0 < u"
    by (simp add: u_def pow2_pos)
  have "\<bar>of_int n - \<bar>x\<bar> / u\<bar> \<le> 1 / 2"
    unfolding n_def by (rule roundHalfEven_close)
  then have "\<bar>of_int n - \<bar>x\<bar> / u\<bar> * u \<le> 1 / 2 * u"
    using u by (simp only: mult_le_cancel_right_pos)
  then have "\<bar>(of_int n - \<bar>x\<bar> / u) * u\<bar> \<le> u / 2"
    using u by (simp add: abs_mult)
  then have a: "\<bar>of_int n * u - \<bar>x\<bar>\<bar> \<le> u / 2"
    using u by (simp add: left_diff_distrib)
  have t: "toDouble x = sgn x * of_int n * u"
    using False by (simp add: toDouble_def Let_def n_def u_def)
  have "\<bar>toDouble x - x\<bar> = \<bar>sgn x * (of_int n * u - \<bar>x\<bar>)\<bar>"
    by (simp add: t right_diff_distrib mult.assoc mult_sgn_abs)
  also have "\<dots> = \<bar>of_int n * u - \<bar>x\<bar>\<bar>"
    using False by (simp add: abs_mult abs_sgn_eq)
  finally show ?thesis
    using a by (simp add: u_def)
qed

lemma toDouble_examples:
  "toDouble (1 / 10) = 3602879701896397 / 2 ^ 55"
  "toDouble (2 ^ 53 + 1) = 2 ^ 53"
  "toDouble (2 ^ 53 + 3) = 2 ^ 53 + 4"
  "toDouble (- 540) = - 540"
  by code_simp+

section \<open>The nine reads of the statistics\<close>

lemma fst_query: "fst (query q w) = answerAt w (issued w) q"
  by (simp add: query_def answerAt_def)

lemma snd_query: "snd (query q w) = w\<lparr>issued := issued w + 1\<rparr>"
  by (simp add: query_def)

lemma answerAt_issued:
  "answerAt (w\<lparr>issued := m\<rparr>) n (Product_find_gt_lte s e) = answerAt w n (Product_find_gt_lte s e)"
  "answerAt (w\<lparr>issued := m\<rparr>) n (UserModel_find_gte_lte s e) = answerAt w n (UserModel_find_gte_lte s e)"
  "answerAt (w\<lparr>issued := m\<rparr>) n (Order_find_gte_lte s e) = answerAt w n (Order_find_gte_lte s e)"
  "answerAt (w\<lparr>issued := m\<rparr>) n Product_countDocuments = answerAt w n Product_countDocuments"
  "answerAt (w\<lparr>issued := m\<rparr>) n UserModel_countDocuments = answerAt w n UserModel_countDocuments"
  "answerAt (w\<lparr>issued := m\<rparr>) n Order_find_select_total = answerAt w n Order_find_select_total"
  by (simp_all add: answerAt_def Product_find_gt_lte_def UserModel_find_gte_lte_def
      Order_find_gte_lte_def Product_countDocuments_def UserModel_countDocuments_def
      Order_find_select_total_def)

lemma fetchAll_unfolded:
  "fetchAll today w =
     (case Promise_all
        (answerAt w (issued w)
           (Product_find_gt_lte (w_start (thisMonth today)) (w_end (thisMonth today))))
        (Promise_all
        (answerAt w (issued w + 1)
           (Product_find_gt_lte (w_start (lastMonth today)) (w_end (lastMonth today))))
        (Promise_all
        (answerAt w (issued w + 2)
           (UserModel_find_gte_lte (w_start (thisMonth today)) (w_end (thisMonth today))))
        (Promise_all
        (answerAt w (issued w + 3)
           (UserModel_find_gte_lte (w_start (lastMonth today)) (w_end (lastMonth today))))
        (Promise_all
        (answerAt w (issued w + 4)
           (Order_find_gte_lte (w_start (thisMonth today)) (w_end (thisMonth today))))
        (Promise_all
        (answerAt w (issued w + 5)
           (Order_find_gte_lte (w_start (lastMonth today)) (w_end (lastMonth today))))
        (Promise_all (answerAt w (issued w + 6) Product_countDocuments)
        (Promise_all (answerAt w (issued w + 7) UserModel_countDocuments)
           (answerAt w (issued w + 8) Order_find_select_total)))))))) of
        None \<Rightarrow> None
      | Some (a, b, c, d, e, f, g, h, i) \<Rightarrow> Some (assemble a b c d e f g h i),
      w\<lparr>issued := issued w + 9\<rparr>)"
  by (simp add: fetchAll_def Let_def split_def fst_query snd_query answerAt_issued
      eval_nat_numeral)

lemma fetchAll_world: "snd (fetchAll today w) = w\<lparr>issued := issued w + 9\<rparr>"
  by (simp add: fetchAll_unfolded)

lemma Promise_all_None [simp]: "Promise_all a None = None" "Promise_all None b = None"
  by (cases a) simp_all

lemma answerAt_rejected: "rejects w n \<Longrightarrow> answerAt w n q = None"
  by (simp add: answerAt_def)

lemma fetchAll_rejected:
  assumes "k < 9" and "rejects w (issued w + k)"
  shows "fst (fetchAll today w) = None"
proof -
  from assms(1)
  have "k = 0 \<or> k = 1 \<or> k = 2 \<or> k = 3 \<or> k = 4 \<or> k = 5 \<or> k = 6 \<or> k = 7 \<or> k = 8"
    by arith
  then show ?thesis
    using assms(2)
    by (elim disjE) (simp_all add: fetchAll_unfolded answerAt_rejected)
qed

lemma fetchAll_answered:
  assumes "\<forall>k<9. \<not> rejects w (issued w + k)"
  shows "fst (fetchAll today w) =
     Some (assemble
       (Product_find_gt_lte (w_start (thisMonth today)) (w_end (thisMonth today)) w)
       (Product_find_gt_lte (w_start (lastMonth today)) (w_end (lastMonth today)) w)
       (UserModel_find_gte_lte (w_start (thisMonth today)) (w_end (thisMonth today)) w)
       (UserModel_find_gte_lte (w_start (lastMonth today)) (w_end (lastMonth today)) w)
       (Order_find_gte_lte (w_start (thisMonth today)) (w_end (thisMonth today)) w)
       (Order_find_gte_lte (w_start (lastMonth today)) (w_end (lastMonth today)) w)
       (Product_countDocuments w) (UserModel_countDocuments w) (Order_find_select_total w))"
proof -
  have r: "\<not> rejects w (issued w)" "\<not> rejects w (issued w + 1)"
    "\<not> rejects w (issued w + 2)" "\<not> rejects w (issued w + 3)" "\<not> rejects w (issued w + 4)"
    "\<not> rejects w (issued w + 5)" "\<not> rejects w (issued w + 6)" "\<not> rejects w (issued w + 7)"
    "\<not> rejects w (issued w + 8)"
    using assms[rule_format, of 0] assms[rule_format, of 1] assms[rule_format, of 2]
      assms[rule_format, of 3] assms[rule_format, of 4] assms[rule_format, of 5]
      assms[rule_format, of 6] assms[rule_format, of 7] assms[rule_format, of 8]
    by simp_all
  show ?thesis
    using r by (simp add: fetchAll_unfolded answerAt_def)
qed

lemma handleGetDashboardStats_world:
  "snd (handleGetDashboardStats today w) =
     (if nodeCache_has (nodeCache w) ''admin-stats'' then w else w\<lparr>issued := issued w + 9\<rparr>)"
  using fetchAll_world [of today w]
  by (auto simp: handleGetDashboardStats_def TryCatch_def Let_def
      split: sum.splits prod.splits)

lemma handleGetDashboardStats_miss:
  "\<not> nodeCache_has (nodeCache w) ''admin-stats'' \<Longrightarrow>
   fst (handleGetDashboardStats today w) =
     (case fst (fetchAll today w) of
        None \<Rightarrow> Next DataSourceFailure
      | Some s \<Rightarrow> Responded 200 \<lparr>success = True,
          message = ''Successfully get dashboard stats'', payload = Some (Snapshot s)\<rparr>)"
  by (simp add: handleGetDashboardStats_def TryCatch_def Let_def
      split: sum.splits prod.splits option.splits)

lemma revenueOf_truncate: "revenueOf (map order_total.truncate xs) = revenueOf xs"
  by (simp add: revenueOf_def foldl_map totalOr0_def order_total.defs)

text \<open>The additions of the shop's revenue are exact: its totals are small integers.\<close>

lemma shop_additions:
  "add 0 200 = 200" "add 200 40 = 240" "add 240 300 = 540" "add 540 0 = 540"
  "add 0 300 = 300" "add 300 0 = 300"
  by code_simp+

text \<open>
  With cents they are not: the doubles \<open>0.1\<close> and \<open>0.2\<close> add up to the double
  \<open>0.30000000000000004\<close>, which is not three tenths and not the double \<open>0.3\<close>.
\<close>

lemma cents_revenue:
  "foldl (\<lambda>total x. add total (case o_total x of None \<Rightarrow> 0 | Some t \<Rightarrow> t)) 0 centsOrders =
     5404319552844596 / 2 ^ 54"
  by code_simp

lemma cents_not_exact:
  "(5404319552844596 / 2 ^ 54 :: rat) \<noteq> 3 / 10"
  "(5404319552844596 / 2 ^ 54 :: rat) \<noteq> toDouble (3 / 10)"
  by code_simp+

lemma windows_midMarch:
  "thisMonth midMarch = \<lparr>w_start = 1709251200000, w_end = 1710504000000\<rparr>"
  "lastMonth midMarch = \<lparr>w_start = 1706745600000, w_end = 1709164800000\<rparr>"
  by (simp_all add: thisMonth_def lastMonth_def midMarch_def Date3_def getTime_def MakeDay_def
      DayFromYear_def daysBeforeMonth_def InLeapYear_def msPerDay_def)

text \<open>
  The end of the last-month window is the midnight that begins the last day of the
  previous month: a whole day before the current month begins.
\<close>

lemma lastMonth_end: "w_end (lastMonth today) = w_start (thisMonth today) - msPerDay"
  by (simp add: lastMonth_def thisMonth_def Date3_def MakeDay_def Let_def algebra_simps)

lemma shopWorld_answers: "\<forall>k<9. \<not> rejects shopWorld (issued shopWorld + k)"
  by (simp add: shopWorld_def emptyWorld_def)

lemma shopWorld_miss: "\<not> nodeCache_has (nodeCache shopWorld) ''admin-stats''"
  by (simp add: shopWorld_def emptyWorld_def nodeCache_has_def)

lemma fetchAll_issued: "fst (fetchAll today (w\<lparr>issued := n\<rparr>)) = fst (fetchAll today w)"
  if "\<forall>k<9. \<not> rejects w (n + k)" and "\<forall>k<9. \<not> rejects w (issued w + k)"
  using fetchAll_answered [of "w\<lparr>issued := n\<rparr>" today] fetchAll_answered [of w today] that
  by (simp add: Product_find_gt_lte_def UserModel_find_gte_lte_def Order_find_gte_lte_def
      Product_countDocuments_def UserModel_countDocuments_def Order_find_select_total_def)

lemma shopWorld_fields:
  "nodeCache shopWorld = Map.empty"
  "products shopWorld =
     [\<lparr>p_id = ''p1'', p_name = ''Lamp'', p_image = None, p_category = ''home'',
       p_price = 20, p_stock = 3, p_createdAt = 1706745600000,
       p_updatedAt = 1706745600000\<rparr>]"
  "users shopWorld =
     [\<lparr>u_id = ''u1'', u_name = ''Alice'', u_email = ''alice@example.org'',
       u_image = ''a.png'', u_role = user, u_dob = 0, u_gender = female,
       u_createdAt = 1706745600000, u_updatedAt = 1706745600000\<rparr>]"
  "orders shopWorld =
     [\<lparr>o_id = ''o1'', o_total = Some 200, o_createdAt = 1707000000000\<rparr>,
      \<lparr>o_id = ''o2'', o_total = Some 40, o_createdAt = 1709208000000\<rparr>,
      \<lparr>o_id = ''o3'', o_total = Some 300, o_createdAt = 1709300000000\<rparr>,
      \<lparr>o_id = ''o4'', o_total = None, o_createdAt = 1709400000000\<rparr>]"
  "issued shopWorld = 0"
  "rejects shopWorld n = False"
  by (simp_all add: shopWorld_def emptyWorld_def)

lemma shopWorld_fetchAll:
  "fst (fetchAll midMarch shopWorld) =
     Some \<lparr>percentage = \<lparr>pc_revenue = 50, pc_product = 0, pc_user = - 100, pc_order = 100\<rparr>,
           count = \<lparr>ct_revenue = 540, ct_product = 1, ct_user = 1, ct_order = 4\<rparr>\<rparr>"
  by (simp add: fetchAll_answered [OF shopWorld_answers] windows_midMarch
      assemble_def revenueOf_def totalOr0_def shop_additions calculatePercentage_def
      toFixed2_def Product_find_gt_lte_def UserModel_find_gte_lte_def Order_find_gte_lte_def
      Product_countDocuments_def UserModel_countDocuments_def Order_find_select_total_def
      order_total.defs shopWorld_fields)

lemma shopWorld_stats:
  "fst (handleGetDashboardStats midMarch shopWorld) =
     Responded 200 \<lparr>success = True, message = ''Successfully get dashboard stats'',
       payload = Some (Snapshot
         \<lparr>percentage = \<lparr>pc_revenue = 50, pc_product = 0, pc_user = - 100, pc_order = 100\<rparr>,
          count = \<lparr>ct_revenue = 540, ct_product = 1, ct_user = 1, ct_order = 4\<rparr>\<rparr>)\<rparr>"
  by (simp add: handleGetDashboardStats_miss [OF shopWorld_miss] shopWorld_fetchAll)

section \<open>The statistics are never stored\<close>

text \<open>
  C1. The claim: on a miss the handler stores the snapshot under \<open>admin-stats\<close> before it
  returns it. The handler never stores it: at the shop, with nothing cached, it answers
  200 with the snapshot, and afterwards the key is still absent.
\<close>

theorem stats_miss_stores_nothing:
  "fst (handleGetDashboardStats midMarch shopWorld) =
     Responded 200 \<lparr>success = True, message = ''Successfully get dashboard stats'',
       payload = Some (Snapshot
         \<lparr>percentage = \<lparr>pc_revenue = 50, pc_product = 0, pc_user = - 100, pc_order = 100\<rparr>,
          count = \<lparr>ct_revenue = 540, ct_product = 1, ct_user = 1, ct_order = 4\<rparr>\<rparr>)\<rparr>
   \<and> \<not> nodeCache_has (nodeCache (snd (handleGetDashboardStats midMarch shopWorld)))
         ''admin-stats''
   \<and> nodeCache_get (nodeCache (snd (handleGetDashboardStats midMarch shopWorld)))
         ''admin-stats'' = None"
proof -
  have "nodeCache (snd (handleGetDashboardStats midMarch shopWorld)) = Map.empty"
    by (simp add: handleGetDashboardStats_world shopWorld_fields)
  then show ?thesis
    by (simp add: shopWorld_stats nodeCache_has_def nodeCache_get_def)
qed

text \<open>
  C5. The claim: a read-through path called twice issues its query at most once. The
  statistics path, called twice at the shop, gives the same answer twice and issues its
  nine reads twice.
\<close>

theorem stats_twice_queries_twice:
  "fst (handleGetDashboardStats midMarch (snd (handleGetDashboardStats midMarch shopWorld))) =
     fst (handleGetDashboardStats midMarch shopWorld)
   \<and> issued shopWorld = 0
   \<and> issued (snd (handleGetDashboardStats midMarch shopWorld)) = 9
   \<and> issued (snd (handleGetDashboardStats midMarch
        (snd (handleGetDashboardStats midMarch shopWorld)))) = 18"
proof -
  have w1: "snd (handleGetDashboardStats midMarch shopWorld) = shopWorld\<lparr>issued := 9\<rparr>"
    using shopWorld_miss by (simp add: handleGetDashboardStats_world shopWorld_fields)
  have m: "\<not> nodeCache_has (nodeCache (shopWorld\<lparr>issued := 9\<rparr>)) ''admin-stats''"
    using shopWorld_miss by simp
  have "fst (fetchAll midMarch (shopWorld\<lparr>issued := 9\<rparr>)) = fst (fetchAll midMarch shopWorld)"
    by (rule fetchAll_issued) (simp_all add: shopWorld_fields)
  then have "fst (handleGetDashboardStats midMarch (shopWorld\<lparr>issued := 9\<rparr>)) =
      fst (handleGetDashboardStats midMarch shopWorld)"
    by (simp add: handleGetDashboardStats_miss [OF m] handleGetDashboardStats_miss [OF shopWorld_miss])
  moreover have "issued (snd (handleGetDashboardStats midMarch (shopWorld\<lparr>issued := 9\<rparr>))) = 18"
    using m by (simp add: handleGetDashboardStats_world)
  ultimately show ?thesis
    by (simp add: w1 shopWorld_fields)
qed

section \<open>The windows\<close>

text \<open>
  C7. The claim: the last-month window ends at the last instant of the previous month,
  so that whatever was created on its final day is counted, and products, users and
  orders share the boundaries. On 15 March 2024 the window the handler computes ends at
  midnight of 29 February (1709164800000), a day before March begins (1709251200000):
  the order of noon on 29 February is in neither window. And a product created at the
  first instant of February is left out of last month where a user created at that very
  instant is counted.
\<close>

theorem last_day_of_month_not_counted:
  "lastMonth midMarch = \<lparr>w_start = 1706745600000, w_end = 1709164800000\<rparr>
   \<and> thisMonth midMarch = \<lparr>w_start = 1709251200000, w_end = 1710504000000\<rparr>
   \<and> map o_createdAt (orders shopWorld) ! 1 = 1709208000000
   \<and> map o_id (Order_find_gte_lte (w_start (lastMonth midMarch)) (w_end (lastMonth midMarch))
        shopWorld) = [''o1'']
   \<and> map o_id (Order_find_gte_lte (w_start (thisMonth midMarch)) (w_end (thisMonth midMarch))
        shopWorld) = [''o3'', ''o4'']
   \<and> map p_createdAt (products shopWorld) = [1706745600000]
   \<and> map u_createdAt (users shopWorld) = [1706745600000]
   \<and> Product_find_gt_lte (w_start (lastMonth midMarch)) (w_end (lastMonth midMarch))
        shopWorld = []
   \<and> map u_id (UserModel_find_gte_lte (w_start (lastMonth midMarch)) (w_end (lastMonth midMarch))
        shopWorld) = [''u1'']"
  by (simp add: windows_midMarch Order_find_gte_lte_def Product_find_gt_lte_def
      UserModel_find_gte_lte_def shopWorld_fields)

section \<open>Revenue and counts\<close>

text \<open>
  C8. When the statistics are not cached and the store answers the nine reads, the
  handler answers with a snapshot whose revenue percentage compares the revenue of the
  this-month orders with that of the last-month orders, and whose counts are the revenue
  of all orders, the number of products, the number of users and the number of orders.
  The revenue of a list of orders is the sum of their totals, a missing total counting
  as 0, the sum being taken as the handler takes it: from left to right, starting from
  0, in the addition of doubles.
\<close>

theorem stats_revenue_and_counts:
  assumes "\<not> nodeCache_has (nodeCache w) ''admin-stats''"
    and "\<forall>k<9. \<not> rejects w (issued w + k)"
  shows "(\<exists>s. fst (handleGetDashboardStats today w) =
            Responded 200 \<lparr>success = True, message = ''Successfully get dashboard stats'',
              payload = Some (Snapshot s)\<rparr>
     \<and> pc_revenue (percentage s) =
         calculatePercentage
           (revenueOf (filter (\<lambda>x. w_start (thisMonth today) \<le> o_createdAt x
                             \<and> o_createdAt x \<le> w_end (thisMonth today)) (orders w)))
           (revenueOf (filter (\<lambda>x. w_start (lastMonth today) \<le> o_createdAt x
                             \<and> o_createdAt x \<le> w_end (lastMonth today)) (orders w)))
     \<and> count s =
         \<lparr>ct_revenue = revenueOf (orders w),
          ct_product = length (products w), ct_user = length (users w),
          ct_order = length (orders w)\<rparr>)
   \<and> revenueOf (xs :: order_doc list) =
       foldl (\<lambda>total x. add total (case o_total x of None \<Rightarrow> 0 | Some t \<Rightarrow> t)) 0 xs"
proof -
  have "revenueOf xs =
      foldl (\<lambda>total x. add total (case o_total x of None \<Rightarrow> 0 | Some t \<Rightarrow> t)) 0 xs"
    by (simp add: revenueOf_def totalOr0_def)
  moreover have "\<exists>s. fst (handleGetDashboardStats today w) =
            Responded 200 \<lparr>success = True, message = ''Successfully get dashboard stats'',
              payload = Some (Snapshot s)\<rparr>
     \<and> pc_revenue (percentage s) =
         calculatePercentage
           (revenueOf (filter (\<lambda>x. w_start (thisMonth today) \<le> o_createdAt x
                             \<and> o_createdAt x \<le> w_end (thisMonth today)) (orders w)))
           (revenueOf (filter (\<lambda>x. w_start (lastMonth today) \<le> o_createdAt x
                             \<and> o_createdAt x \<le> w_end (lastMonth today)) (orders w)))
     \<and> count s =
         \<lparr>ct_revenue = revenueOf (orders w),
          ct_product = length (products w), ct_user = length (users w),
          ct_order = length (orders w)\<rparr>"
    using assms(1) fetchAll_answered [OF assms(2), of today]
    by (simp add: handleGetDashboardStats_miss assemble_def Let_def revenueOf_truncate
        Order_find_gte_lte_def Product_countDocuments_def UserModel_countDocuments_def
        Order_find_select_total_def)
  ultimately show ?thesis
    by (rule conjI [rotated])
qed

text \<open>
  At the shop the revenues are 300 against 200 and 540 in all; and the revenue of the two
  orders of \<open>0.1\<close> and \<open>0.2\<close> is the double \<open>0.30000000000000004\<close>.
\<close>

theorem stats_revenue_and_counts_witness:
  "\<not> nodeCache_has (nodeCache shopWorld) ''admin-stats''
   \<and> (\<exists>s. fst (handleGetDashboardStats midMarch shopWorld) =
            Responded 200 \<lparr>success = True, message = ''Successfully get dashboard stats'',
              payload = Some (Snapshot s)\<rparr>
        \<and> pc_revenue (percentage s) = calculatePercentage 300 200
        \<and> count s = \<lparr>ct_revenue = 540, ct_product = 1, ct_user = 1, ct_order = 4\<rparr>)
   \<and> revenueOf centsOrders = 5404319552844596 / 2 ^ 54"
proof -
  note t = stats_revenue_and_counts [OF shopWorld_miss shopWorld_answers, of midMarch
      centsOrders]
  have "\<exists>s. fst (handleGetDashboardStats midMarch shopWorld) =
            Responded 200 \<lparr>success = True, message = ''Successfully get dashboard stats'',
              payload = Some (Snapshot s)\<rparr>
        \<and> pc_revenue (percentage s) = calculatePercentage 300 200
        \<and> count s = \<lparr>ct_revenue = 540, ct_product = 1, ct_user = 1, ct_order = 4\<rparr>"
    using t [THEN conjunct1]
    by (simp add: windows_midMarch shopWorld_fields eval_nat_numeral revenueOf_def totalOr0_def
        shop_additions)
  moreover have "revenueOf centsOrders = 5404319552844596 / 2 ^ 54"
    using t [THEN conjunct2] cents_revenue by simp
  ultimately show ?thesis
    using shopWorld_miss by blast
qed

section \<open>A failed read\<close>

text \<open>
  C9. When the statistics are not cached and the store rejects one of the nine reads,
  the handler sends no snapshot: the failure goes to \<open>next\<close>, the cache is as it was, and
  the next call issues the nine reads again.
\<close>

theorem stats_failure_aborts:
  assumes "\<not> nodeCache_has (nodeCache w) ''admin-stats''"
    and "k < 9" and "rejects w (issued w + k)"
  shows "fst (handleGetDashboardStats today w) = Next DataSourceFailure
     \<and> nodeCache (snd (handleGetDashboardStats today w)) = nodeCache w
     \<and> issued (snd (handleGetDashboardStats today w)) = issued w + 9
     \<and> issued (snd (handleGetDashboardStats today' (snd (handleGetDashboardStats today w)))) =
         issued w + 18"
  using assms(1) fetchAll_rejected [OF assms(2) assms(3), of today]
  by (simp add: handleGetDashboardStats_miss handleGetDashboardStats_world)

theorem stats_failure_aborts_witness:
  "\<not> nodeCache_has (nodeCache flakyWorld) ''admin-stats''
   \<and> rejects flakyWorld (issued flakyWorld + 3)
   \<and> fst (handleGetDashboardStats midMarch flakyWorld) = Next DataSourceFailure
   \<and> nodeCache (snd (handleGetDashboardStats midMarch flakyWorld)) = nodeCache flakyWorld
   \<and> issued (snd (handleGetDashboardStats midMarch flakyWorld)) = 9
   \<and> issued (snd (handleGetDashboardStats midMarch
        (snd (handleGetDashboardStats midMarch flakyWorld)))) = 18"
proof -
  have m: "\<not> nodeCache_has (nodeCache flakyWorld) ''admin-stats''"
    by (simp add: flakyWorld_def shopWorld_def emptyWorld_def nodeCache_has_def)
  have k: "(3::nat) < 9"
    by simp
  have r: "rejects flakyWorld (issued flakyWorld + 3)"
    by (simp add: flakyWorld_def shopWorld_def emptyWorld_def)
  have i: "issued flakyWorld = 0"
    by (simp add: flakyWorld_def shopWorld_def emptyWorld_def)
  show ?thesis
    using stats_failure_aborts [OF m k r, of midMarch midMarch] m r
    by (simp add: i)
qed

section \<open>The percentage\<close>

lemma toFixed2_close: "\<bar>toFixed2 x - x\<bar> \<le> 1 / 200"
proof -
  have "\<bar>of_int (round (x * 100)) - x * 100\<bar> \<le> (1 / 2 :: rat)"
    by (rule of_int_round_abs_le)
  then have "\<bar>(of_int (round (x * 100)) - x * 100) / 100\<bar> \<le> (1 / 2) / (100 :: rat)"
    by (simp add: abs_divide divide_right_mono del: of_int_round_abs_le)
  then show ?thesis
    by (simp add: toFixed2_def diff_divide_distrib)
qed

text \<open>
  C6. For non-negative \<open>current\<close> and \<open>previous\<close>, the percentage is \<open>current * 100\<close> on a
  zero baseline; otherwise it is a number of hundredths, at most half a hundredth away
  from \<open>(current - previous) / previous * 100\<close>. In particular it is 500 for (5, 0), 50 for
  (150, 100), -50 for (50, 100) and 0 for (0, 0).
\<close>

theorem percentage_of_change:
  assumes "0 \<le> current" and "0 \<le> previous"
  shows "(previous = 0 \<longrightarrow> calculatePercentage current previous = current * 100)
       \<and> (previous \<noteq> 0 \<longrightarrow>
            (\<exists>n :: int. calculatePercentage current previous = of_int n / 100)
          \<and> \<bar>calculatePercentage current previous - ((current - previous) / previous) * 100\<bar>
              \<le> 1 / 200)
       \<and> calculatePercentage 5 0 = 500
       \<and> calculatePercentage 150 100 = 50
       \<and> calculatePercentage 50 100 = - 50
       \<and> calculatePercentage 0 0 = 0"
proof -
  have "\<exists>n :: int. toFixed2 x = of_int n / 100" for x
    by (auto simp: toFixed2_def)
  then show ?thesis
    using toFixed2_close [of "((current - previous) / previous) * 100"]
    by (simp add: calculatePercentage_def) (simp add: toFixed2_def)
qed

theorem percentage_of_change_witness:
  "calculatePercentage 7 0 = 700
   \<and> (\<exists>n :: int. calculatePercentage 300 200 = of_int n / 100)
   \<and> \<bar>calculatePercentage 300 200 - 50\<bar> \<le> 1 / 200"
proof -
  have a: "(0::rat) \<le> 7" "(0::rat) \<le> 0" "(0::rat) \<le> 300" "(0::rat) \<le> 200"
    by simp_all
  show ?thesis
    using percentage_of_change [OF a(1) a(2)] percentage_of_change [OF a(3) a(4)]
    by simp
qed

section \<open>The invalidation table\<close>

lemma deleteMany_apply: "deleteMany ks c k = (if k \<in> set ks then None else c k)"
  by (induction ks arbitrary: c) (simp_all add: deleteMany_def nodeCache_del_def)

lemma invalidate_product_stats:
  "\<not> nodeCache_has (invalidateCache \<lparr>entityKind = Product, entityId = x\<rparr> c) ''admin-stats''"
  by (simp add: invalidateCache_def keysToPurge_def deleteMany_apply nodeCache_has_def)

text \<open>
  C3. After the invalidation of a request of kind \<open>Product\<close> without an id, none of
  \<open>latestProducts\<close>, \<open>categories\<close>, \<open>admin-products\<close> and \<open>admin-stats\<close> is in the cache,
  whatever the cache held before.
\<close>

theorem product_invalidation_purges_views:
  assumes "entityKind r = Product" and "entityId r = None"
  shows "\<not> nodeCache_has (invalidateCache r c) ''latestProducts''
       \<and> \<not> nodeCache_has (invalidateCache r c) ''categories''
       \<and> \<not> nodeCache_has (invalidateCache r c) ''admin-products''
       \<and> \<not> nodeCache_has (invalidateCache r c) ''admin-stats''"
  using assms
  by (simp add: invalidateCache_def keysToPurge_def deleteMany_apply nodeCache_has_def)

theorem product_invalidation_purges_views_witness:
  "nodeCache_has warmCache ''latestProducts''
   \<and> nodeCache_has warmCache ''admin-stats''
   \<and> \<not> nodeCache_has Map.empty ''categories''
   \<and> \<not> nodeCache_has (invalidateCache \<lparr>entityKind = Product, entityId = None\<rparr> warmCache)
         ''latestProducts''
   \<and> \<not> nodeCache_has (invalidateCache \<lparr>entityKind = Product, entityId = None\<rparr> warmCache)
         ''categories''
   \<and> \<not> nodeCache_has (invalidateCache \<lparr>entityKind = Product, entityId = None\<rparr> warmCache)
         ''admin-products''
   \<and> \<not> nodeCache_has (invalidateCache \<lparr>entityKind = Product, entityId = None\<rparr> warmCache)
         ''admin-stats''
   \<and> \<not> nodeCache_has (invalidateCache \<lparr>entityKind = Product, entityId = None\<rparr> Map.empty)
         ''categories''"
proof -
  have k: "entityKind \<lparr>entityKind = Product, entityId = None\<rparr> = Product"
    "entityId \<lparr>entityKind = Product, entityId = None\<rparr> = None"
    by simp_all
  have "nodeCache_has warmCache ''latestProducts''" "nodeCache_has warmCache ''admin-stats''"
    "\<not> nodeCache_has Map.empty ''categories''"
    by (simp_all add: warmCache_def nodeCache_has_def)
  then show ?thesis
    using product_invalidation_purges_views [OF k, of warmCache]
      product_invalidation_purges_views [OF k, of Map.empty]
    by blast
qed

text \<open>
  C4. After the invalidation of a request of kind \<open>Product\<close> with the id \<open>X\<close>, the key
  \<open>product-X\<close> is not in the cache, and for every other id \<open>Y\<close> the entry under \<open>product-Y\<close>
  is what it was: present with the same payload, or absent.
\<close>

theorem product_invalidation_frame:
  assumes "entityKind r = Product" and "entityId r = Some X"
  shows "\<not> nodeCache_has (invalidateCache r c) (''product-'' @ X)
       \<and> (\<forall>Y. Y \<noteq> X \<longrightarrow>
            nodeCache_get (invalidateCache r c) (''product-'' @ Y) =
              nodeCache_get c (''product-'' @ Y)
          \<and> nodeCache_has (invalidateCache r c) (''product-'' @ Y) =
              nodeCache_has c (''product-'' @ Y))"
  using assms
  by (simp add: invalidateCache_def keysToPurge_def deleteMany_apply nodeCache_has_def
      nodeCache_get_def)

theorem product_invalidation_frame_witness:
  "nodeCache_has warmCache ''product-p1''
   \<and> \<not> nodeCache_has (invalidateCache \<lparr>entityKind = Product, entityId = Some ''p1''\<rparr> warmCache)
         ''product-p1''
   \<and> nodeCache_get (invalidateCache \<lparr>entityKind = Product, entityId = Some ''p1''\<rparr> warmCache)
         ''product-p2'' = Some (Stringified (Str ''kept''))
   \<and> \<not> nodeCache_has (invalidateCache \<lparr>entityKind = Product, entityId = Some ''p1''\<rparr> warmCache)
         ''product-p3''"
proof -
  have k: "entityKind \<lparr>entityKind = Product, entityId = Some ''p1''\<rparr> = Product"
    "entityId \<lparr>entityKind = Product, entityId = Some ''p1''\<rparr> = Some ''p1''"
    by simp_all
  have w: "nodeCache_has warmCache ''product-p1''"
    "nodeCache_get warmCache ''product-p2'' = Some (Stringified (Str ''kept''))"
    "\<not> nodeCache_has warmCache ''product-p3''"
    by (simp_all add: warmCache_def nodeCache_has_def nodeCache_get_def)
  have n: "''p2'' \<noteq> ''p1''" "''p3'' \<noteq> ''p1''"
    by simp_all
  from product_invalidation_frame [OF k, of warmCache]
  have "\<not> nodeCache_has (invalidateCache \<lparr>entityKind = Product, entityId = Some ''p1''\<rparr> warmCache)
          (''product-'' @ ''p1'')"
    and "\<And>Y. Y \<noteq> ''p1'' \<Longrightarrow>
          nodeCache_get (invalidateCache \<lparr>entityKind = Product, entityId = Some ''p1''\<rparr> warmCache)
            (''product-'' @ Y) = nodeCache_get warmCache (''product-'' @ Y)"
    and "\<And>Y. Y \<noteq> ''p1'' \<Longrightarrow>
          nodeCache_has (invalidateCache \<lparr>entityKind = Product, entityId = Some ''p1''\<rparr> warmCache)
            (''product-'' @ Y) = nodeCache_has warmCache (''product-'' @ Y)"
    by blast+
  from this(1) this(2) [OF n(1)] this(3) [OF n(2)] w show ?thesis
    by simp
qed

section \<open>Writes and the cache\<close>

lemma fst_TryCatch:
  "fst (TryCatch f w) = (case fst (f w) of Inl err \<Rightarrow> Next err | Inr out \<Rightarrow> out)"
  by (cases "f w"; cases "fst (f w)") (simp_all add: TryCatch_def)

lemma snd_TryCatch: "snd (TryCatch f w) = snd (f w)"
  by (cases "f w"; cases "fst (f w)") (simp_all add: TryCatch_def)

lemma insert_cache: "nodeCache (snd (command (UserModal_insert u) v)) = nodeCache v"
  by (simp add: command_def UserModal_insert_def)

lemma handleNewUser_cache: "nodeCache (snd (handleNewUser now b w)) = nodeCache w"
  by (simp add: handleNewUser_def snd_TryCatch case_prod_beta snd_query insert_cache
      split: sum.splits option.splits)

lemma create_cache: "nodeCache (snd (command (Product_create req oid now) w)) = nodeCache w"
  by (simp add: command_def Product_create_def Let_def)

lemma handleNewProduct_cache:
  assumes "fst (handleNewProduct v oid now req w) = Responded code b"
  shows "nodeCache (snd (handleNewProduct v oid now req w)) =
           invalidateCache \<lparr>entityKind = Product, entityId = None\<rparr> (nodeCache w)"
  using assms
  by (simp add: handleNewProduct_def fst_TryCatch snd_TryCatch case_prod_beta create_cache
      split: sum.splits option.splits)

lemma findById_id: "Product_findById pid w = Some p \<Longrightarrow> p_id p = pid"
  by (auto simp: Product_findById_def find_Some_iff)

lemma setField_id: "setField kv p = Some p' \<Longrightarrow> p_id p' = p_id p"
  by (auto simp: setField_def split: prod.splits jsvalue.splits if_splits)

lemma applyUpdates_id: "applyUpdates us p = Some p' \<Longrightarrow> p_id p' = p_id p"
  by (induction us arbitrary: p) (auto split: option.splits dest: setField_id)

lemma update_command:
  assumes "fst (command (Product_findByIdAndUpdate pid us now) w) = Some (Some q)"
  shows "p_id q = pid
       \<and> nodeCache (snd (command (Product_findByIdAndUpdate pid us now) w)) = nodeCache w"
  using assms
  by (auto simp: command_def Product_findByIdAndUpdate_def Let_def
      split: if_splits option.splits dest!: findById_id applyUpdates_id)

lemma delete_command:
  assumes "fst (command (Product_findByIdAndDelete pid) w) = Some (Some q)"
  shows "p_id q = pid
       \<and> nodeCache (snd (command (Product_findByIdAndDelete pid) w)) = nodeCache w"
  using assms
  by (auto simp: command_def Product_findByIdAndDelete_def
      split: if_splits option.splits dest!: findById_id)

lemma deleteImageOf_cache: "nodeCache (deleteImageOf p w) = nodeCache w"
  by (simp add: deleteImageOf_def deleteImage_def split: option.splits)

lemma handleDeleteProduct_cache:
  assumes "fst (handleDeleteProduct pid w) = Responded code b"
  shows "nodeCache (snd (handleDeleteProduct pid w)) =
           invalidateCache \<lparr>entityKind = Product, entityId = Some pid\<rparr> (nodeCache w)"
proof -
  let ?w1 = "w\<lparr>issued := issued w + 1\<rparr>"
  from assms obtain p where p: "fst (query (Product_findById pid) w) = Some (Some p)"
    by (auto simp: handleDeleteProduct_def fst_TryCatch case_prod_beta
        split: sum.splits option.splits elim: await.elims)
  let ?c = "command (Product_findByIdAndDelete pid) (deleteImageOf p ?w1)"
  from assms p obtain q where q: "fst ?c = Some (Some q)"
    by (auto simp: handleDeleteProduct_def fst_TryCatch case_prod_beta snd_query
        split: sum.splits option.splits elim: await.elims)
  from delete_command [OF q]
  have "p_id q = pid" and "nodeCache (snd ?c) = nodeCache w"
    by (simp_all add: deleteImageOf_cache)
  with p q show ?thesis
    by (simp add: handleDeleteProduct_def snd_TryCatch case_prod_beta snd_query)
qed

lemma handleUpdateSingleProduct_cache:
  assumes "fst (handleUpdateSingleProduct now req w) = Responded code b"
  shows "nodeCache (snd (handleUpdateSingleProduct now req w)) =
           invalidateCache \<lparr>entityKind = Product, entityId = Some (up_id req)\<rparr> (nodeCache w)"
proof -
  let ?w1 = "w\<lparr>issued := issued w + 1\<rparr>"
  let ?allow = "[''name'', ''category'', ''price'', ''stock'', ''image'']"
  from assms obtain p where p: "fst (query (Product_findById (up_id req)) w) = Some (Some p)"
    by (auto simp: handleUpdateSingleProduct_def fst_TryCatch case_prod_beta
        split: sum.splits option.splits elim: await.elims)
  from assms p obtain us where us: "prepareUpdates (up_body req) ?allow = Inr us"
    by (auto simp: handleUpdateSingleProduct_def fst_TryCatch case_prod_beta Let_def
        split: sum.splits option.splits)
  show ?thesis
  proof (cases "up_file req")
    case None
    let ?c = "command (Product_findByIdAndUpdate (up_id req) us now) ?w1"
    from assms p us None obtain q where q: "fst ?c = Some (Some q)"
      by (auto simp: handleUpdateSingleProduct_def fst_TryCatch case_prod_beta snd_query Let_def
          split: sum.splits option.splits elim: await.elims)
    from update_command [OF q]
    have "p_id q = up_id req" and "nodeCache (snd ?c) = nodeCache w"
      by simp_all
    with p us q None show ?thesis
      by (simp add: handleUpdateSingleProduct_def snd_TryCatch case_prod_beta snd_query Let_def)
  next
    case (Some path)
    let ?c = "command (Product_findByIdAndUpdate (up_id req) (assign ''image'' (Str path) us) now)
                (deleteImageOf p ?w1)"
    from assms p us Some obtain q where q: "fst ?c = Some (Some q)"
      by (auto simp: handleUpdateSingleProduct_def fst_TryCatch case_prod_beta snd_query Let_def
          split: sum.splits option.splits elim: await.elims)
    from update_command [OF q]
    have "p_id q = up_id req" and "nodeCache (snd ?c) = nodeCache w"
      by (simp_all add: deleteImageOf_cache)
    with p us q Some show ?thesis
      by (simp add: handleUpdateSingleProduct_def snd_TryCatch case_prod_beta snd_query Let_def)
  qed
qed

lemma staleWorld_hit: "nodeCache_has (nodeCache staleWorld) ''admin-stats''"
  by (simp add: staleWorld_def nodeCache_has_def)

lemma bob_created:
  "fst (handleNewUser 1710504000000 bob staleWorld) =
     Responded 201 \<lparr>success = True,
       message = ''Welcome Bob Ray! Your account has been created successfully!'',
       payload = None\<rparr>"
  by code_simp

lemma bob_users:
  "map u_id (users (snd (handleNewUser 1710504000000 bob staleWorld))) = [''u1'', ''u2'']"
  by code_simp

lemma lamp2_created:
  "fst (handleNewProduct (\<lambda>req allowed. None) ''p2'' 1710504000000 lamp2 staleWorld) =
     Responded 201 \<lparr>success = True, message = ''Product created successfully'',
       payload = Some (ProductDoc \<lparr>p_id = ''p2'', p_name = ''Desk lamp'',
         p_image = Some ''uploads/lamp.png'', p_category = ''home'', p_price = 35, p_stock = 7,
         p_createdAt = 1710504000000, p_updatedAt = 1710504000000\<rparr>)\<rparr>"
  by code_simp

lemma repriced:
  "fst (handleUpdateSingleProduct 1710504000000 reprice staleWorld) =
     Responded 200 \<lparr>success = True, message = ''Product updated successfully'',
       payload = Some (ProductDoc \<lparr>p_id = ''p1'', p_name = ''Lamp'', p_image = None,
         p_category = ''home'', p_price = 25, p_stock = 3, p_createdAt = 1706745600000,
         p_updatedAt = 1710504000000\<rparr>)\<rparr>"
  by code_simp

lemma deleted:
  "fst (handleDeleteProduct ''p1'' staleWorld) =
     Responded 200 \<lparr>success = True, message = ''Product deleted successfully'',
       payload = Some (ProductDoc \<lparr>p_id = ''p1'', p_name = ''Lamp'', p_image = None,
         p_category = ''home'', p_price = 20, p_stock = 3, p_createdAt = 1706745600000,
         p_updatedAt = 1706745600000\<rparr>)\<rparr>"
  by code_simp

text \<open>
  C2. The claim: every write, a user write among them, is followed by an invalidation
  that purges \<open>admin-stats\<close>, so that after a user has been created through
  \<open>handleNewUser\<close> the key is absent. With a snapshot cached, the sign-up of Bob is
  answered 201, the user is in the store, and the key is still in the cache.
\<close>

theorem new_user_keeps_cached_stats:
  "fst (handleNewUser 1710504000000 bob staleWorld) =
     Responded 201 \<lparr>success = True,
       message = ''Welcome Bob Ray! Your account has been created successfully!'',
       payload = None\<rparr>
   \<and> map u_id (users (snd (handleNewUser 1710504000000 bob staleWorld))) = [''u1'', ''u2'']
   \<and> nodeCache_has (nodeCache (snd (handleNewUser 1710504000000 bob staleWorld))) ''admin-stats''"
  by (simp add: bob_created bob_users handleNewUser_cache staleWorld_hit)

text \<open>
  C2, as amended. \<open>handleNewUser\<close> leaves the cache exactly as it was. Each of the three
  product writes that ends with a response (the creation, the update, the deletion) has
  called the invalidation for the product, with the product's id for an update or a
  deletion, and \<open>admin-stats\<close> is absent afterwards.
\<close>

theorem product_writes_invalidate_user_write_does_not:
  "nodeCache (snd (handleNewUser now b w)) = nodeCache w
   \<and> ((\<exists>code body. fst (handleNewProduct v oid now np w) = Responded code body) \<longrightarrow>
        nodeCache (snd (handleNewProduct v oid now np w)) =
          invalidateCache \<lparr>entityKind = Product, entityId = None\<rparr> (nodeCache w)
        \<and> \<not> nodeCache_has (nodeCache (snd (handleNewProduct v oid now np w))) ''admin-stats'')
   \<and> ((\<exists>code body. fst (handleUpdateSingleProduct now up w) = Responded code body) \<longrightarrow>
        nodeCache (snd (handleUpdateSingleProduct now up w)) =
          invalidateCache \<lparr>entityKind = Product, entityId = Some (up_id up)\<rparr> (nodeCache w)
        \<and> \<not> nodeCache_has (nodeCache (snd (handleUpdateSingleProduct now up w))) ''admin-stats'')
   \<and> ((\<exists>code body. fst (handleDeleteProduct pid w) = Responded code body) \<longrightarrow>
        nodeCache (snd (handleDeleteProduct pid w)) =
          invalidateCache \<lparr>entityKind = Product, entityId = Some pid\<rparr> (nodeCache w)
        \<and> \<not> nodeCache_has (nodeCache (snd (handleDeleteProduct pid w))) ''admin-stats'')"
  by (auto simp: handleNewUser_cache handleNewProduct_cache handleUpdateSingleProduct_cache
      handleDeleteProduct_cache invalidate_product_stats)

theorem product_writes_invalidate_user_write_does_not_witness:
  "nodeCache_has (nodeCache staleWorld) ''admin-stats''
   \<and> nodeCache (snd (handleNewUser 1710504000000 bob staleWorld)) = nodeCache staleWorld
   \<and> \<not> nodeCache_has (nodeCache (snd (handleNewProduct (\<lambda>req allowed. None) ''p2''
          1710504000000 lamp2 staleWorld))) ''admin-stats''
   \<and> \<not> nodeCache_has (nodeCache (snd (handleUpdateSingleProduct 1710504000000 reprice
          staleWorld))) ''admin-stats''
   \<and> \<not> nodeCache_has (nodeCache (snd (handleDeleteProduct ''p1'' staleWorld))) ''admin-stats''"
proof -
  have e1: "\<exists>code body. fst (handleNewProduct (\<lambda>req allowed. None) ''p2'' 1710504000000
      lamp2 staleWorld) = Responded code body"
    using lamp2_created by blast
  have e2: "\<exists>code body. fst (handleUpdateSingleProduct 1710504000000 reprice staleWorld) =
      Responded code body"
    using repriced by blast
  have e3: "\<exists>code body. fst (handleDeleteProduct ''p1'' staleWorld) = Responded code body"
    using deleted by blast
  show ?thesis
    using product_writes_invalidate_user_write_does_not
        [where w = staleWorld and now = 1710504000000 and b = bob
          and v = "\<lambda>req allowed. None" and oid = "''p2''" and np = lamp2
          and up = reprice and pid = "''p1''"]
      e1 e2 e3 staleWorld_hit
    by blast
qed

section \<open>A product that is not there\<close>

lemma shopWorld_p9:
  "\<not> nodeCache_has (nodeCache shopWorld) (''product-'' @ ''p9'')"
  "\<not> rejects shopWorld (issued shopWorld)"
  "Product_findById ''p9'' shopWorld = None"
  by (simp_all add: shopWorld_fields nodeCache_has_def Product_findById_def)

lemma restocked_key:
  "nodeCache_get (nodeCache restockedWorld) (''product-'' @ ''p9'') =
   nodeCache_get (nodeCache (snd (handleGetSingleProduct ''p9'' shopWorld))) (''product-'' @ ''p9'')"
proof -
  have "fst (handleNewProduct (\<lambda>req allowed. None) ''p9'' 1710504000000 lamp2 askedWorld) =
      Responded 201 \<lparr>success = True, message = ''Product created successfully'',
       payload = Some (ProductDoc \<lparr>p_id = ''p9'', p_name = ''Desk lamp'',
         p_image = Some ''uploads/lamp.png'', p_category = ''home'', p_price = 35, p_stock = 7,
         p_createdAt = 1710504000000, p_updatedAt = 1710504000000\<rparr>)\<rparr>"
    by code_simp
  then have "nodeCache restockedWorld =
      invalidateCache \<lparr>entityKind = Product, entityId = None\<rparr> (nodeCache askedWorld)"
    unfolding restockedWorld_def by (rule handleNewProduct_cache)
  then show ?thesis
    by (simp add: askedWorld_def nodeCache_get_def invalidateCache_def keysToPurge_def
        deleteMany_apply)
qed

lemma restocked_products: "map p_id (products restockedWorld) = [''p1'', ''p9'']"
  by code_simp

text \<open>
  C10. When no product has the id, the key \<open>product-<id>\<close> is not cached and the store
  answers, \<open>handleGetSingleProduct\<close> answers 404 and stores the text of \<open>null\<close> under the
  key. From then on, in any state whose cache holds under the key what that call left
  there, whatever the store holds by then, the handler answers 404 again and leaves the
  state as it is: no read is issued.
\<close>

theorem missing_product_is_cached:
  assumes "\<not> nodeCache_has (nodeCache w) (''product-'' @ pid)"
    and "\<not> rejects w (issued w)"
    and "Product_findById pid w = None"
    and "nodeCache_get (nodeCache w2) (''product-'' @ pid) =
         nodeCache_get (nodeCache (snd (handleGetSingleProduct pid w))) (''product-'' @ pid)"
  shows "handleGetSingleProduct pid w =
           (Responded 404 \<lparr>success = False, message = ''Product not found'',
              payload = Some EmptyObj\<rparr>,
            w\<lparr>issued := issued w + 1,
              nodeCache := (nodeCache w)(''product-'' @ pid \<mapsto> JSON_stringify Null)\<rparr>)
       \<and> handleGetSingleProduct pid w2 =
           (Responded 404 \<lparr>success = False, message = ''Product not found'',
              payload = Some EmptyObj\<rparr>, w2)"
proof -
  have first: "handleGetSingleProduct pid w =
           (Responded 404 \<lparr>success = False, message = ''Product not found'',
              payload = Some EmptyObj\<rparr>,
            w\<lparr>issued := issued w + 1,
              nodeCache := (nodeCache w)(''product-'' @ pid \<mapsto> JSON_stringify Null)\<rparr>)"
    using assms(1-3)
    by (simp add: handleGetSingleProduct_def TryCatch_def query_def Let_def productResponse_def
        nodeCache_set_def)
  with assms(4) have "nodeCache w2 (''product-'' @ pid) = Some (Stringified Null)"
    by (simp add: nodeCache_get_def JSON_stringify_def)
  then have "handleGetSingleProduct pid w2 =
           (Responded 404 \<lparr>success = False, message = ''Product not found'',
              payload = Some EmptyObj\<rparr>, w2)"
    by (simp add: handleGetSingleProduct_def TryCatch_def Let_def productResponse_def
        nodeCache_has_def nodeCache_get_def)
  with first show ?thesis
    by simp
qed

text \<open>
  The shop is asked for \<open>p9\<close>, then a product is created under the id \<open>p9\<close>, then the shop
  is asked again: the product is in the store and the answer is 404.
\<close>

theorem missing_product_is_cached_witness:
  "map p_id (products restockedWorld) = [''p1'', ''p9'']
   \<and> handleGetSingleProduct ''p9'' shopWorld =
       (Responded 404 \<lparr>success = False, message = ''Product not found'',
          payload = Some EmptyObj\<rparr>,
        shopWorld\<lparr>issued := issued shopWorld + 1,
          nodeCache := (nodeCache shopWorld)(''product-'' @ ''p9'' \<mapsto> JSON_stringify Null)\<rparr>)
   \<and> handleGetSingleProduct ''p9'' restockedWorld =
       (Responded 404 \<lparr>success = False, message = ''Product not found'',
          payload = Some EmptyObj\<rparr>, restockedWorld)"
  using missing_product_is_cached [OF shopWorld_p9 restocked_key] restocked_products
  by blast

section \<open>The product reads, called twice\<close>

text \<open>
  The four product read paths store what they compute: called twice while the store
  answers, each gives the same answer twice and issues at most one read.
\<close>

lemma readThroughList_twice:
  assumes "\<not> rejects w (issued w)"
  shows "fst (TryCatch (readThroughList key q found nothing)
               (snd (TryCatch (readThroughList key q found nothing) w))) =
         fst (TryCatch (readThroughList key q found nothing) w)
       \<and> issued (snd (TryCatch (readThroughList key q found nothing)
               (snd (TryCatch (readThroughList key q found nothing) w)))) \<le> issued w + 1"
proof (cases "nodeCache_has (nodeCache w) key")
  case True
  then have "snd (TryCatch (readThroughList key q found nothing) w) = w"
    by (simp add: snd_TryCatch readThroughList_def split: sum.splits)
  then show ?thesis
    by simp
next
  case False
  define w1 where "w1 = w\<lparr>issued := issued w + 1,
    nodeCache := nodeCache_set key (JSON_stringify (q w)) (nodeCache w)\<rparr>"
  from False assms
  have a: "readThroughList key q found nothing w = (listResponse found nothing (q w), w1)"
    by (simp add: readThroughList_def query_def w1_def)
  have b: "readThroughList key q found nothing w1 = (listResponse found nothing (q w), w1)"
    by (simp add: readThroughList_def nodeCache_has_def nodeCache_set_def nodeCache_get_def
        JSON_stringify_def w1_def)
  have "issued w1 = issued w + 1"
    by (simp add: w1_def)
  then show ?thesis
    by (simp add: fst_TryCatch snd_TryCatch a b)
qed

lemma listing_reads_twice:
  assumes "\<not> rejects w (issued w)"
  shows "fst (handleGetLatestProducts (snd (handleGetLatestProducts w))) =
           fst (handleGetLatestProducts w)"
    and "issued (snd (handleGetLatestProducts (snd (handleGetLatestProducts w)))) \<le> issued w + 1"
    and "fst (handleGetAllCategories (snd (handleGetAllCategories w))) =
           fst (handleGetAllCategories w)"
    and "issued (snd (handleGetAllCategories (snd (handleGetAllCategories w)))) \<le> issued w + 1"
    and "fst (handleGetAllAdminProducts (snd (handleGetAllAdminProducts w))) =
           fst (handleGetAllAdminProducts w)"
    and "issued (snd (handleGetAllAdminProducts (snd (handleGetAllAdminProducts w))))
           \<le> issued w + 1"
  using readThroughList_twice [OF assms]
  by (simp_all add: handleGetLatestProducts_def handleGetAllCategories_def
      handleGetAllAdminProducts_def)

lemma single_product_twice:
  assumes "\<not> rejects w (issued w)"
  shows "fst (handleGetSingleProduct pid (snd (handleGetSingleProduct pid w))) =
         fst (handleGetSingleProduct pid w)
       \<and> issued (snd (handleGetSingleProduct pid (snd (handleGetSingleProduct pid w))))
           \<le> issued w + 1"
proof (cases "nodeCache_has (nodeCache w) (''product-'' @ pid)")
  case True
  then have "snd (handleGetSingleProduct pid w) = w"
    by (simp add: handleGetSingleProduct_def snd_TryCatch Let_def split: sum.splits)
  then show ?thesis
    by simp
next
  case False
  define v where "v = (case Product_findById pid w of None \<Rightarrow> Null | Some p \<Rightarrow> ProductDoc p)"
  define w1 where "w1 = w\<lparr>issued := issued w + 1,
    nodeCache := nodeCache_set (''product-'' @ pid) (JSON_stringify v) (nodeCache w)\<rparr>"
  from False assms have a: "handleGetSingleProduct pid w = (productResponse v, w1)"
    by (simp add: handleGetSingleProduct_def TryCatch_def query_def Let_def v_def w1_def)
  have b: "handleGetSingleProduct pid w1 = (productResponse v, w1)"
    by (simp add: handleGetSingleProduct_def TryCatch_def Let_def nodeCache_has_def
        nodeCache_set_def nodeCache_get_def JSON_stringify_def w1_def)
  have "issued w1 = issued w + 1"
    by (simp add: w1_def)
  then show ?thesis
    by (simp add: a b)
qed

end
